theory Spec2Isabelle
  imports Complex_Main
begin

section \<open>The zksolc compiler downloader (compile/downloader.ts)\<close>

text \<open>
  A shallow embedding of the class \<open>ZksolcCompilerDownloader\<close>. The class talks to three
  outside resources: the file system (through fs-extra), a remote repository (through the
  injected download function) and a subprocess (through spawnSync). Each of them is a part
  of an explicit \<open>world\<close> or of the fixed surroundings \<open>env\<close>; every method is a function
  from a world to a result and the world it leaves behind. A thrown exception is the
  \<open>Inl\<close> of the result; the world it leaves behind is kept, since nothing is rolled back.
\<close>

subsection \<open>Data\<close>

record CompilerVersionInfo =
  latest :: string
  minVersion :: string

text \<open>
  The message constants and message builders of \<open>../constants\<close>. Their texts are not part
  of this source file, so each is a constructor that keeps the arguments the code hands to
  it. \<open>Text\<close> is a message the code builds itself, and \<open>Undefined\<close> the JavaScript value
  \<open>undefined\<close> in the place of a message.
\<close>

datatype message =
    COMPILER_BINARY_CORRUPTION_ERROR
  | COMPILER_VERSION_INFO_FILE_DOWNLOAD_ERROR
  | COMPILER_VERSION_INFO_FILE_NOT_FOUND_ERROR
  | COMPILER_VERSION_RANGE_ERROR string string string
  | COMPILER_VERSION_WARNING string string
  | Text string
  | Undefined

text \<open>
  What can be thrown: the plugin's own error, the error of the download function (with its
  message), the SyntaxError of reading a file that is not JSON, the TypeError of a version
  string that is not a semantic version, and a failed system call (stat or chmod of a path
  that does not exist).
\<close>

datatype error =
    ZkSyncSolcPluginError message
  | DownloadError string
  | SyntaxError
  | TypeError
  | SystemError string

text \<open>
  A file holds either a JSON document of the declared type \<open>CompilerVersionInfo\<close> or
  bytes that are not JSON. (A file of valid JSON of another shape, which \<open>readJSON\<close>
  would hand on against the declared type, is not among the files of this model.) Times
  are milliseconds (JavaScript numbers, taken as reals); \<open>ctimeMs\<close> is
  the time stamp \<open>fs.Stats.ctimeMs\<close> that the staleness check reads.
\<close>

datatype file_data = Manifest CompilerVersionInfo | Bytes string

record fs_file =
  data :: file_data
  ctimeMs :: real
  mode :: nat

record SpawnSyncReturns =
  status :: "int option"
  stdout :: "string option"

text \<open>Every call that leaves the process is recorded, in order.\<close>

datatype event =
    PathExists string
  | Stat string
  | ReadJSON string
  | Download string string
  | ChmodSync string nat
  | SpawnSync string "string list"
  | ConsoleInfo message

record ZksolcCompilerDownloader =
  version :: string
  configCompilerPath :: string
  compilersDirectory :: string
  compilerVersionInfoCachePeriodMs :: real
  isCompilerPathURL :: bool

text \<open>
  The world: the files, the clock (\<open>new Date().valueOf()\<close>; it stands still during one
  call), the record of calls, and the static field \<open>_instance\<close> of the class.
\<close>

record world =
  files :: "string \<rightharpoonup> fs_file"
  clock :: real
  trace :: "event list"
  static_instance :: "ZksolcCompilerDownloader option"

text \<open>
  The surroundings that this source file imports and does not define: the helpers of
  \<open>../utils\<close> (\<open>isURL\<close>, \<open>saltFromUrl\<close>, \<open>getZksolcUrl\<close>), \<open>path.join\<close>, the constants
  of \<open>../constants\<close>, and the two capabilities: what the remote side answers for a URL
  (\<open>Inl\<close> the message of the transport error, \<open>Inr\<close> the body) and what running a file
  with some arguments gives (the file at the path, if any, decides).
\<close>

record env =
  isURL :: "string \<Rightarrow> bool"
  saltFromUrl :: "string \<Rightarrow> string"
  getZksolcUrl :: "string \<Rightarrow> string \<Rightarrow> string"
  path_join :: "string list \<Rightarrow> string"
  ZKSOLC_BIN_REPOSITORY :: string
  ZKSOLC_BIN_VERSION_INFO :: string
  DEFAULT_COMPILER_VERSION_INFO_CACHE_PERIOD :: real
  remote :: "string \<Rightarrow> string + file_data"
  new_file_mode :: nat
  run :: "string \<Rightarrow> string list \<Rightarrow> fs_file option \<Rightarrow> SpawnSyncReturns"

subsection \<open>Sequencing and exceptions\<close>

type_synonym 'a io = "world \<Rightarrow> (error + 'a) \<times> world"

definition returnE :: "'a \<Rightarrow> 'a io" where
  "returnE x w = (Inr x, w)"

definition throwE :: "error \<Rightarrow> 'a io" where
  "throwE e w = (Inl e, w)"

definition bindE :: "'a io \<Rightarrow> ('a \<Rightarrow> 'b io) \<Rightarrow> 'b io" where
  "bindE m f w = (case m w of (Inl e, w') \<Rightarrow> (Inl e, w') | (Inr x, w') \<Rightarrow> f x w')"

definition catchE :: "'a io \<Rightarrow> (error \<Rightarrow> 'a io) \<Rightarrow> 'a io" where
  "catchE m h w = (case m w of (Inl e, w') \<Rightarrow> h e w' | (Inr x, w') \<Rightarrow> (Inr x, w'))"

definition record_event :: "event \<Rightarrow> world \<Rightarrow> world" where
  "record_event ev w = w\<lparr>trace := trace w @ [ev]\<rparr>"

subsection \<open>The calls to the outside\<close>

definition pathExists :: "string \<Rightarrow> bool io" where
  "pathExists p w = (Inr (files w p \<noteq> None), record_event (PathExists p) w)"

definition stat :: "string \<Rightarrow> fs_file io" where
  "stat p w =
     (case files w p of
        None \<Rightarrow> (Inl (SystemError ''ENOENT''), record_event (Stat p) w)
      | Some f \<Rightarrow> (Inr f, record_event (Stat p) w))"

definition readJSON :: "string \<Rightarrow> CompilerVersionInfo io" where
  "readJSON p w =
     (case files w p of
        None \<Rightarrow> (Inl (SystemError ''ENOENT''), record_event (ReadJSON p) w)
      | Some f \<Rightarrow>
          (case data f of
             Manifest info \<Rightarrow> (Inr info, record_event (ReadJSON p) w)
           | Bytes b \<Rightarrow> (Inl SyntaxError, record_event (ReadJSON p) w)))"

text \<open>
  Modelled from the spec: the download function (\<open>hardhat/internal/util/download\<close>) is the
  injected capability "fetch URL to path". A transport failure throws and writes nothing;
  a success leaves the body at the path, as a new file.
\<close>

definition download :: "env \<Rightarrow> string \<Rightarrow> string \<Rightarrow> unit io" where
  "download E url p w =
     (case remote E url of
        Inl msg \<Rightarrow> (Inl (DownloadError msg), record_event (Download url p) w)
      | Inr body \<Rightarrow>
          (Inr (),
           record_event (Download url p)
             (w\<lparr>files := (files w)(p \<mapsto> \<lparr>data = body, ctimeMs = clock w, mode = new_file_mode E\<rparr>)\<rparr>)))"

definition chmodSync :: "string \<Rightarrow> nat \<Rightarrow> unit io" where
  "chmodSync p m w =
     (case files w p of
        None \<Rightarrow> (Inl (SystemError ''ENOENT''), record_event (ChmodSync p m) w)
      | Some f \<Rightarrow>
          (Inr (),
           record_event (ChmodSync p m)
             (w\<lparr>files := (files w)(p \<mapsto> f\<lparr>mode := m, ctimeMs := clock w\<rparr>)\<rparr>)))"

definition spawnSync :: "env \<Rightarrow> string \<Rightarrow> string list \<Rightarrow> SpawnSyncReturns io" where
  "spawnSync E p args w = (Inr (run E p args (files w p)), record_event (SpawnSync p args) w)"

definition consoleInfo :: "message \<Rightarrow> unit io" where
  "consoleInfo msg w = (Inr (), record_event (ConsoleInfo msg) w)"

definition now :: "real io" where
  "now w = (Inr (clock w), w)"

definition set_instance :: "ZksolcCompilerDownloader \<Rightarrow> unit io" where
  "set_instance this w = (Inr (), w\<lparr>static_instance := Some this\<rparr>)"

subsection \<open>Strings\<close>

text \<open>JavaScript's \<open>s.split(d)\<close> for a separator of one character.\<close>

fun split_on :: "char \<Rightarrow> string \<Rightarrow> string list" where
  "split_on d [] = [[]]"
| "split_on d (c # cs) =
     (if c = d then [] # split_on d cs
      else (case split_on d cs of [] \<Rightarrow> [[c]] | x # xs \<Rightarrow> (c # x) # xs))"

definition is_digit :: "char \<Rightarrow> bool" where
  "is_digit c = (c \<in> set ''0123456789'')"

definition is_letter :: "char \<Rightarrow> bool" where
  "is_letter c =
     (c \<in> set ''abcdefghijklmnopqrstuvwxyzABCDEFGHIJKLMNOPQRSTUVWXYZ'')"

definition digits_to_nat :: "string \<Rightarrow> nat" where
  "digits_to_nat s = foldl (\<lambda>n c. 10 * n + (of_char c - 48)) 0 s"

subsection \<open>Semantic versions\<close>

text \<open>
  Modelled from the spec: \<open>isVersionInRange\<close> of \<open>../utils\<close> is not part of this source
  file. The spec has it parse the requested version as a semantic version and check
  \<open>minVersion <= requested <= latest\<close>, an inclusive range in the standard ordering of
  semantic versions with its rules for pre-releases. The grammar and the precedence below
  are those of Semantic Versioning 2.0.0: \<open>major.minor.patch\<close>, then \<open>-\<close> and
  dot-separated pre-release identifiers, then \<open>+\<close> and build identifiers (which do not
  take part in the precedence). The spec does not say what a string that is not a semantic
  version gives; the model has no answer then (\<open>None\<close>), and the callers let that pass on
  as a TypeError, never as a verdict on the range.
\<close>

datatype pre_id = Numeric nat | Alphanumeric string

record semver =
  major :: nat
  minor :: nat
  patch :: nat
  prerelease :: "pre_id list"

definition is_identifier_char :: "char \<Rightarrow> bool" where
  "is_identifier_char c = (is_digit c \<or> is_letter c \<or> c = CHR ''-'')"

definition numeric_identifier :: "string \<Rightarrow> nat option" where
  "numeric_identifier s =
     (if s \<noteq> [] \<and> list_all is_digit s \<and> (s = ''0'' \<or> take 1 s \<noteq> ''0'')
      then Some (digits_to_nat s) else None)"

definition prerelease_identifier :: "string \<Rightarrow> pre_id option" where
  "prerelease_identifier s =
     (if s = [] \<or> \<not> list_all is_identifier_char s then None
      else if list_all is_digit s then map_option Numeric (numeric_identifier s)
      else Some (Alphanumeric s))"

definition build_identifier :: "string \<Rightarrow> bool" where
  "build_identifier s = (s \<noteq> [] \<and> list_all is_identifier_char s)"

text \<open>The part before the first \<open>d\<close>, and the part after it when there is one.\<close>

definition cut :: "char \<Rightarrow> string \<Rightarrow> string \<times> string option" where
  "cut d s =
     (takeWhile (\<lambda>c. c \<noteq> d) s,
      case dropWhile (\<lambda>c. c \<noteq> d) s of [] \<Rightarrow> None | c # rest \<Rightarrow> Some rest)"

fun all_some :: "'a option list \<Rightarrow> 'a list option" where
  "all_some [] = Some []"
| "all_some (None # xs) = None"
| "all_some (Some x # xs) = map_option (\<lambda>ys. x # ys) (all_some xs)"

definition parse_semver :: "string \<Rightarrow> semver option" where
  "parse_semver s =
     (case cut CHR ''+'' s of (main, build) \<Rightarrow>
      case cut CHR ''-'' main of (core, pre) \<Rightarrow>
        if (case build of None \<Rightarrow> False
            | Some b \<Rightarrow> \<not> list_all build_identifier (split_on CHR ''.'' b))
        then None
        else
          (case all_some (map numeric_identifier (split_on CHR ''.'' core)) of
             Some [ma, mi, pa] \<Rightarrow>
               (case pre of
                  None \<Rightarrow> Some \<lparr>major = ma, minor = mi, patch = pa, prerelease = []\<rparr>
                | Some p \<Rightarrow>
                    map_option
                      (\<lambda>ids. \<lparr>major = ma, minor = mi, patch = pa, prerelease = ids\<rparr>)
                      (all_some (map prerelease_identifier (split_on CHR ''.'' p))))
           | _ \<Rightarrow> None))"

text \<open>Comparisons answer \<open>-1\<close>, \<open>0\<close> or \<open>1\<close>.\<close>

definition compare_nat :: "nat \<Rightarrow> nat \<Rightarrow> int" where
  "compare_nat a b = (if a < b then - 1 else if b < a then 1 else 0)"

fun compare_ascii :: "string \<Rightarrow> string \<Rightarrow> int" where
  "compare_ascii [] [] = 0"
| "compare_ascii [] (b # bs) = - 1"
| "compare_ascii (a # as) [] = 1"
| "compare_ascii (a # as) (b # bs) =
     (if compare_nat (of_char a) (of_char b) \<noteq> 0 then compare_nat (of_char a) (of_char b)
      else compare_ascii as bs)"

fun compare_identifier :: "pre_id \<Rightarrow> pre_id \<Rightarrow> int" where
  "compare_identifier (Numeric a) (Numeric b) = compare_nat a b"
| "compare_identifier (Numeric a) (Alphanumeric b) = - 1"
| "compare_identifier (Alphanumeric a) (Numeric b) = 1"
| "compare_identifier (Alphanumeric a) (Alphanumeric b) = compare_ascii a b"

fun compare_identifiers :: "pre_id list \<Rightarrow> pre_id list \<Rightarrow> int" where
  "compare_identifiers [] [] = 0"
| "compare_identifiers [] (b # bs) = - 1"
| "compare_identifiers (a # as) [] = 1"
| "compare_identifiers (a # as) (b # bs) =
     (if compare_identifier a b \<noteq> 0 then compare_identifier a b
      else compare_identifiers as bs)"

text \<open>A version with no pre-release identifiers is above each of its pre-releases.\<close>

definition compare_prerelease :: "pre_id list \<Rightarrow> pre_id list \<Rightarrow> int" where
  "compare_prerelease p q =
     (if p = [] \<and> q = [] then 0
      else if p = [] then 1
      else if q = [] then - 1
      else compare_identifiers p q)"

definition compare_semver :: "semver \<Rightarrow> semver \<Rightarrow> int" where
  "compare_semver a b =
     (if compare_nat (major a) (major b) \<noteq> 0 then compare_nat (major a) (major b)
      else if compare_nat (minor a) (minor b) \<noteq> 0 then compare_nat (minor a) (minor b)
      else if compare_nat (patch a) (patch b) \<noteq> 0 then compare_nat (patch a) (patch b)
      else compare_prerelease (prerelease a) (prerelease b))"

definition isVersionInRange :: "string \<Rightarrow> CompilerVersionInfo \<Rightarrow> bool option" where
  "isVersionInRange v versionInfo =
     (case (parse_semver v, parse_semver (minVersion versionInfo),
            parse_semver (latest versionInfo)) of
        (Some x, Some lo, Some hi) \<Rightarrow> Some (0 \<le> compare_semver x lo \<and> compare_semver x hi \<le> 0)
      | _ \<Rightarrow> None)"

subsection \<open>The first match of the version pattern\<close>

text \<open>
  \<open>stdout.match(/\d+\.\d+\.\d+/)\<close>: the leftmost match of the pattern, or nothing. At a
  given start each \<open>\d+\<close> takes the longest run of digits: giving a digit back never
  helps, since the pattern then wants a dot or nothing where a digit stands.
\<close>

definition match_here :: "string \<Rightarrow> string option" where
  "match_here s =
     (let a = takeWhile is_digit s in
      if a = [] then None
      else
        (case dropWhile is_digit s of
           [] \<Rightarrow> None
         | d1 # s1 \<Rightarrow>
             if d1 \<noteq> CHR ''.'' then None
             else
               (let b = takeWhile is_digit s1 in
                if b = [] then None
                else
                  (case dropWhile is_digit s1 of
                     [] \<Rightarrow> None
                   | d2 # s2 \<Rightarrow>
                       if d2 \<noteq> CHR ''.'' then None
                       else
                         (let c = takeWhile is_digit s2 in
                          if c = [] then None else Some (a @ ''.'' @ b @ ''.'' @ c))))))"

fun first_match :: "string \<Rightarrow> string option" where
  "first_match [] = None"
| "first_match (c # cs) =
     (case match_here (c # cs) of Some m \<Rightarrow> Some m | None \<Rightarrow> first_match cs)"

subsection \<open>The class ZksolcCompilerDownloader\<close>

text \<open>
  The private constructor: the last two parameters take their defaults at the only call
  site, so the cache period is the static default and the download function is the
  capability of the surroundings.
\<close>

definition new_ZksolcCompilerDownloader ::
  "env \<Rightarrow> string \<Rightarrow> string \<Rightarrow> string \<Rightarrow> ZksolcCompilerDownloader" where
  "new_ZksolcCompilerDownloader E v configPath compilersDir =
     \<lparr>version = v,
      configCompilerPath = configPath,
      compilersDirectory = compilersDir,
      compilerVersionInfoCachePeriodMs = DEFAULT_COMPILER_VERSION_INFO_CACHE_PERIOD E,
      isCompilerPathURL = isURL E configPath\<rparr>"

definition getCompilerPath :: "env \<Rightarrow> ZksolcCompilerDownloader \<Rightarrow> string" where
  "getCompilerPath E this =
     (let salt = (if isCompilerPathURL this then saltFromUrl E (configCompilerPath this) else [])
      in path_join E
           [compilersDirectory this, ''zksolc'',
            ''zksolc-v'' @ version this @ (if salt \<noteq> [] then ''-'' else []) @ salt])"

definition isCompilerDownloaded :: "env \<Rightarrow> ZksolcCompilerDownloader \<Rightarrow> bool io" where
  "isCompilerDownloaded E this = pathExists (getCompilerPath E this)"

definition getCompilerVersionInfoPath :: "env \<Rightarrow> ZksolcCompilerDownloader \<Rightarrow> string" where
  "getCompilerVersionInfoPath E this =
     path_join E [compilersDirectory this, ''zksolc'', ''compilerVersionInfo.json'']"

definition shouldDownloadCompilerVersionInfo ::
  "env \<Rightarrow> ZksolcCompilerDownloader \<Rightarrow> bool io" where
  "shouldDownloadCompilerVersionInfo E this =
     bindE (pathExists (getCompilerVersionInfoPath E this)) (\<lambda>present.
       if \<not> present then returnE True
       else
         bindE (stat (getCompilerVersionInfoPath E this)) (\<lambda>stats.
         bindE now (\<lambda>t.
           returnE (t - ctimeMs stats > compilerVersionInfoCachePeriodMs this))))"

definition downloadCompilerVersionInfo :: "env \<Rightarrow> ZksolcCompilerDownloader \<Rightarrow> unit io" where
  "downloadCompilerVersionInfo E this =
     download E (ZKSOLC_BIN_VERSION_INFO E @ ''/version.json'')
       (getCompilerVersionInfoPath E this)"

text \<open>The private method \<open>_downloadCompiler\<close> (the public one follows below).\<close>

definition private_downloadCompiler :: "env \<Rightarrow> ZksolcCompilerDownloader \<Rightarrow> string io" where
  "private_downloadCompiler E this =
     (let url = (if \<not> isCompilerPathURL this
                 then getZksolcUrl E (ZKSOLC_BIN_REPOSITORY E) (version this)
                 else configCompilerPath this)
      in bindE (download E url (getCompilerPath E this)) (\<lambda>_.
           returnE (getCompilerPath E this)))"

definition readCompilerVersionInfo :: "string \<Rightarrow> CompilerVersionInfo io" where
  "readCompilerVersionInfo compilerVersionInfoPath = readJSON compilerVersionInfoPath"

definition getCompilerVersionInfo ::
  "env \<Rightarrow> ZksolcCompilerDownloader \<Rightarrow> CompilerVersionInfo option io" where
  "getCompilerVersionInfo E this =
     bindE (pathExists (getCompilerVersionInfoPath E this)) (\<lambda>present.
       if \<not> present then returnE None
       else
         bindE (readCompilerVersionInfo (getCompilerVersionInfoPath E this)) (\<lambda>info.
           returnE (Some info)))"

text \<open>The mode is the octal \<open>0o755\<close>, that is \<open>7 * 64 + 5 * 8 + 5 = 493\<close>.\<close>

definition postProcessCompilerDownload :: "env \<Rightarrow> ZksolcCompilerDownloader \<Rightarrow> unit io" where
  "postProcessCompilerDownload E this = chmodSync (getCompilerPath E this) 493"

definition verifyCompiler :: "env \<Rightarrow> ZksolcCompilerDownloader \<Rightarrow> unit io" where
  "verifyCompiler E this =
     bindE (spawnSync E (getCompilerPath E this) [''--version'']) (\<lambda>versionOutput.
       (let v = (case stdout versionOutput of None \<Rightarrow> None | Some out \<Rightarrow> first_match out)
        in if status versionOutput \<noteq> Some 0 \<or> v = None
           then throwE (ZkSyncSolcPluginError COMPILER_BINARY_CORRUPTION_ERROR)
           else
             (case v of
                None \<Rightarrow> returnE ()
              | Some got \<Rightarrow>
                  if version this \<noteq> got
                  then consoleInfo
                         (Text (''zksolc compiler version mismatch: expected '' @ version this
                                @ '', got '' @ got))
                  else returnE ())))"

text \<open>
  Lines 40 to 52 of \<open>getDownloaderWithVersionValidated\<close>: read the manifest; fetch it when
  it is absent or when the staleness check says so (the check runs only when the first
  operand of \<open>||\<close> is false); read it again after a fetch.
\<close>

definition versionInfoAtConstruction ::
  "env \<Rightarrow> ZksolcCompilerDownloader \<Rightarrow> CompilerVersionInfo io" where
  "versionInfoAtConstruction E this =
     bindE (getCompilerVersionInfo E this) (\<lambda>found.
     bindE (if found = None then returnE True
            else shouldDownloadCompilerVersionInfo E this) (\<lambda>fetch.
     bindE (if fetch
            then bindE (catchE (downloadCompilerVersionInfo E this) (\<lambda>e.
                          throwE (ZkSyncSolcPluginError
                                    COMPILER_VERSION_INFO_FILE_DOWNLOAD_ERROR))) (\<lambda>_.
                   getCompilerVersionInfo E this)
            else returnE found) (\<lambda>compilerVersionInfo.
       (case compilerVersionInfo of
          None \<Rightarrow> throwE (ZkSyncSolcPluginError COMPILER_VERSION_INFO_FILE_NOT_FOUND_ERROR)
        | Some info \<Rightarrow> returnE info))))"

text \<open>
  The static factory. \<open>_instance\<close> is assigned before anything is validated, and an
  exception leaves it assigned.
\<close>

definition getDownloaderWithVersionValidated ::
  "env \<Rightarrow> string \<Rightarrow> string \<Rightarrow> string \<Rightarrow> ZksolcCompilerDownloader io" where
  "getDownloaderWithVersionValidated E v configPath compilersDir w =
     (case static_instance w of
        Some inst \<Rightarrow> returnE inst w
      | None \<Rightarrow>
          (let this = new_ZksolcCompilerDownloader E v configPath compilersDir in
           bindE (set_instance this) (\<lambda>_.
           bindE (versionInfoAtConstruction E this) (\<lambda>compilerVersionInfo.
             if v = ''latest'' \<or> v = latest compilerVersionInfo
             then
               bindE (set_instance (this\<lparr>version := latest compilerVersionInfo\<rparr>)) (\<lambda>_.
                 returnE (this\<lparr>version := latest compilerVersionInfo\<rparr>))
             else
               (case isVersionInRange v compilerVersionInfo of
                  None \<Rightarrow> throwE TypeError
                | Some inRange \<Rightarrow>
                    if \<not> inRange
                    then throwE (ZkSyncSolcPluginError
                                   (COMPILER_VERSION_RANGE_ERROR v
                                      (minVersion compilerVersionInfo)
                                      (latest compilerVersionInfo)))
                    else
                      bindE (consoleInfo
                               (COMPILER_VERSION_WARNING v (latest compilerVersionInfo))) (\<lambda>_.
                        returnE this))))) w)"

text \<open>
  Lines 118 to 132 of \<open>downloadCompiler\<close>: here the staleness check is the second operand
  of \<open>&&\<close>, so it runs only when the manifest was not found.
\<close>

definition versionInfoAtDownload ::
  "env \<Rightarrow> ZksolcCompilerDownloader \<Rightarrow> CompilerVersionInfo io" where
  "versionInfoAtDownload E this =
     bindE (getCompilerVersionInfo E this) (\<lambda>found.
     bindE (if found = None then shouldDownloadCompilerVersionInfo E this
            else returnE False) (\<lambda>fetch.
     bindE (if fetch
            then bindE (catchE (downloadCompilerVersionInfo E this) (\<lambda>e.
                          throwE (ZkSyncSolcPluginError
                                    COMPILER_VERSION_INFO_FILE_DOWNLOAD_ERROR))) (\<lambda>_.
                   getCompilerVersionInfo E this)
            else returnE found) (\<lambda>compilerVersionInfo.
       (case compilerVersionInfo of
          None \<Rightarrow> throwE (ZkSyncSolcPluginError COMPILER_VERSION_INFO_FILE_NOT_FOUND_ERROR)
        | Some info \<Rightarrow> returnE info))))"

text \<open>
  \<open>e.message.split('\n')[0]\<close>. In the guarded block only the download function throws,
  and its error carries a message; any other error has no message in this model.
\<close>

definition first_line_message :: "error \<Rightarrow> message" where
  "first_line_message e =
     (case e of
        DownloadError msg \<Rightarrow>
          (case split_on (CHR 0x0A) msg of [] \<Rightarrow> Undefined | l # ls \<Rightarrow> Text l)
      | _ \<Rightarrow> Undefined)"

text \<open>
  The public method. The mutex admits one caller at a time; a single caller runs the body
  as it stands.
\<close>

definition downloadCompiler :: "env \<Rightarrow> ZksolcCompilerDownloader \<Rightarrow> unit io" where
  "downloadCompiler E this =
     bindE (versionInfoAtDownload E this) (\<lambda>compilerVersionInfo.
       (case isVersionInRange (version this) compilerVersionInfo of
          None \<Rightarrow> throwE TypeError
        | Some inRange \<Rightarrow>
            if \<not> inRange
            then throwE (ZkSyncSolcPluginError
                           (COMPILER_VERSION_RANGE_ERROR (version this)
                              (minVersion compilerVersionInfo)
                              (latest compilerVersionInfo)))
            else
              bindE (catchE (private_downloadCompiler E this) (\<lambda>e.
                       throwE (ZkSyncSolcPluginError (first_line_message e)))) (\<lambda>_.
              bindE (postProcessCompilerDownload E this) (\<lambda>_.
                verifyCompiler E this))))"

subsection \<open>Notions the statements use\<close>

text \<open>The messages written to the console, in order.\<close>

fun advisories :: "event list \<Rightarrow> message list" where
  "advisories [] = []"
| "advisories (ConsoleInfo m # evs) = m # advisories evs"
| "advisories (ev # evs) = advisories evs"

text \<open>A fetch of the manifest is a download that writes to the manifest's path.\<close>

fun fetches_to :: "string \<Rightarrow> event list \<Rightarrow> nat" where
  "fetches_to p [] = 0"
| "fetches_to p (Download url q # evs) = (if q = p then 1 else 0) + fetches_to p evs"
| "fetches_to p (ev # evs) = fetches_to p evs"

definition manifest_fetches :: "env \<Rightarrow> ZksolcCompilerDownloader \<Rightarrow> world \<Rightarrow> nat" where
  "manifest_fetches E this w = fetches_to (getCompilerVersionInfoPath E this) (trace w)"

text \<open>
  The pattern \<open>\d+\.\d+\.\d+\<close> said in words: three non-empty runs of digits with a dot
  between them; and a text that has such a substring somewhere.
\<close>

definition version_pattern :: "string \<Rightarrow> bool" where
  "version_pattern m =
     (\<exists>a b c. m = a @ ''.'' @ b @ ''.'' @ c \<and> a \<noteq> [] \<and> b \<noteq> [] \<and> c \<noteq> [] \<and>
        list_all is_digit a \<and> list_all is_digit b \<and> list_all is_digit c)"

definition contains_version :: "string \<Rightarrow> bool" where
  "contains_version t = (\<exists>pre m post. t = pre @ m @ post \<and> version_pattern m)"

text \<open>
  The first matched substring, said without the matcher: a substring of the pattern's
  form such that no other one starts further left and none that starts at the same place
  is longer.
\<close>

definition first_version_match :: "string \<Rightarrow> string \<Rightarrow> bool" where
  "first_version_match t got =
     (\<exists>pre post. t = pre @ got @ post \<and> version_pattern got \<and>
        (\<forall>pre' m' post'. t = pre' @ m' @ post' \<and> version_pattern m' \<longrightarrow>
           length pre < length pre' \<or> (length pre' = length pre \<and> length m' \<le> length got)))"

text \<open>The URL that \<open>_downloadCompiler\<close> fetches.\<close>

definition compilerUrl :: "env \<Rightarrow> ZksolcCompilerDownloader \<Rightarrow> string" where
  "compilerUrl E this =
     (if \<not> isCompilerPathURL this
      then getZksolcUrl E (ZKSOLC_BIN_REPOSITORY E) (version this)
      else configCompilerPath this)"

subsection \<open>A concrete setting\<close>

text \<open>
  Surroundings to run the definitions in: simple stand-ins for the helpers, and the
  remote side and the subprocess as parameters.
\<close>

definition example_env ::
  "(string \<Rightarrow> string + file_data) \<Rightarrow> (fs_file option \<Rightarrow> SpawnSyncReturns) \<Rightarrow> env" where
  "example_env rem exec =
     \<lparr>isURL = (\<lambda>s. take 4 s = ''http''),
      saltFromUrl = (\<lambda>s. ''0a1b''),
      getZksolcUrl = (\<lambda>repo v. repo @ ''/zksolc-v'' @ v),
      path_join = (\<lambda>ps. case ps of [a, b, c] \<Rightarrow> a @ ''/'' @ b @ ''/'' @ c | _ \<Rightarrow> concat ps),
      ZKSOLC_BIN_REPOSITORY = ''https://bin'',
      ZKSOLC_BIN_VERSION_INFO = ''https://info'',
      DEFAULT_COMPILER_VERSION_INFO_CACHE_PERIOD = 3600000,
      remote = rem,
      new_file_mode = 420,
      run = (\<lambda>p args. exec)\<rparr>"

definition example_info :: CompilerVersionInfo where
  "example_info = \<lparr>latest = ''1.3.13'', minVersion = ''1.3.0''\<rparr>"

text \<open>A manifest whose window is inconsistent: its lower bound is above its latest.\<close>

definition inconsistent_info :: CompilerVersionInfo where
  "inconsistent_info = \<lparr>latest = ''1.3.13'', minVersion = ''1.4.0''\<rparr>"

definition manifest_file :: "CompilerVersionInfo \<Rightarrow> real \<Rightarrow> fs_file" where
  "manifest_file info t = \<lparr>data = Manifest info, ctimeMs = t, mode = 420\<rparr>"

definition example_world :: "(string \<rightharpoonup> fs_file) \<Rightarrow> real \<Rightarrow> world" where
  "example_world fs t = \<lparr>files = fs, clock = t, trace = [], static_instance = None\<rparr>"

definition example_session :: "string \<Rightarrow> ZksolcCompilerDownloader" where
  "example_session v =
     \<lparr>version = v, configCompilerPath = [], compilersDirectory = ''/c'',
      compilerVersionInfoCachePeriodMs = 3600000, isCompilerPathURL = False\<rparr>"

text \<open>A remote side that serves a manifest and one compiler binary, and fails otherwise.\<close>

definition example_remote :: "CompilerVersionInfo \<Rightarrow> string \<Rightarrow> string + file_data" where
  "example_remote info url =
     (if url = ''https://info/version.json'' then Inr (Manifest info)
      else if url = ''https://bin/zksolc-v1.3.5'' then Inr (Bytes ''zksolc 1.3.5'')
      else if url = ''https://bin/zksolc-v1.3.13'' then Inr (Bytes ''zksolc 1.3.13'')
      else Inl ''connect ETIMEDOUT\<newline>    at TCPConnectWrap'')"

text \<open>A subprocess that prints what the file holds, and fails when there is no file.\<close>

definition example_exec :: "fs_file option \<Rightarrow> SpawnSyncReturns" where
  "example_exec f =
     (case f of
        None \<Rightarrow> \<lparr>status = None, stdout = None\<rparr>
      | Some x \<Rightarrow>
          (case data x of
             Bytes b \<Rightarrow> \<lparr>status = Some 0, stdout = Some (''zksolc version '' @ drop 7 b)\<rparr>
           | Manifest i \<Rightarrow> \<lparr>status = Some 1, stdout = Some []\<rparr>))"

section \<open>Properties\<close>

subsection \<open>The ordering of semantic versions\<close>

text \<open>Every comparison is reflexive, and swapping its arguments changes its sign.\<close>

lemma compare_nat_refl: "compare_nat a a = 0"
  by (simp add: compare_nat_def)

lemma compare_nat_flip: "compare_nat b a = - compare_nat a b"
  by (simp add: compare_nat_def)

lemma compare_ascii_refl: "compare_ascii s s = 0"
  by (induction s) (simp_all add: compare_nat_refl)

lemma compare_ascii_flip: "compare_ascii t s = - compare_ascii s t"
proof (induction s t rule: compare_ascii.induct)
  case (4 a as b bs)
  then show ?case
    using compare_nat_flip [of "of_char b" "of_char a"] by simp
qed simp_all

lemma compare_identifier_refl: "compare_identifier i i = 0"
  by (cases i) (simp_all add: compare_nat_refl compare_ascii_refl)

lemma compare_identifier_flip: "compare_identifier j i = - compare_identifier i j"
  by (cases i; cases j) (auto simp: compare_nat_def intro: compare_ascii_flip)

lemma compare_identifiers_refl: "compare_identifiers p p = 0"
  by (induction p) (simp_all add: compare_identifier_refl)

lemma compare_identifiers_flip: "compare_identifiers q p = - compare_identifiers p q"
proof (induction p q rule: compare_identifiers.induct)
  case (4 a as b bs)
  then show ?case
    using compare_identifier_flip [of b a] by simp
qed simp_all

lemma compare_prerelease_refl: "compare_prerelease p p = 0"
  by (simp add: compare_prerelease_def compare_identifiers_refl)

lemma compare_prerelease_flip: "compare_prerelease q p = - compare_prerelease p q"
  using compare_identifiers_flip [of q p] by (simp add: compare_prerelease_def)

lemma compare_semver_refl: "compare_semver a a = 0"
  by (simp add: compare_semver_def compare_nat_refl compare_prerelease_refl)

lemma compare_semver_flip: "compare_semver b a = - compare_semver a b"
  using compare_nat_flip [of "major b" "major a"] compare_nat_flip [of "minor b" "minor a"]
    compare_nat_flip [of "patch b" "patch a"]
    compare_prerelease_flip [of "prerelease b" "prerelease a"]
  by (simp add: compare_semver_def)

subsection \<open>The first match finds the pattern exactly when the text has it\<close>

lemma dot_not_digit: "\<not> is_digit CHR ''.''"
  by (simp add: is_digit_def)

lemma takeWhile_digits_dot:
  "list_all is_digit a \<Longrightarrow> takeWhile is_digit (a @ CHR ''.'' # r) = a"
  by (simp add: takeWhile_append2 list_all_iff dot_not_digit)

lemma dropWhile_digits_dot:
  "list_all is_digit a \<Longrightarrow> dropWhile is_digit (a @ CHR ''.'' # r) = CHR ''.'' # r"
  by (simp add: dropWhile_append2 list_all_iff dot_not_digit)

lemma match_here_complete:
  assumes "version_pattern m"
  shows "match_here (m @ post) \<noteq> None"
proof -
  from assms obtain a b c where m: "m = a @ ''.'' @ b @ ''.'' @ c"
    and ne: "a \<noteq> []" "b \<noteq> []" "c \<noteq> []"
    and dg: "list_all is_digit a" "list_all is_digit b" "list_all is_digit c"
    unfolding version_pattern_def by blast
  have c: "takeWhile is_digit (c @ post) \<noteq> []"
    using ne(3) dg(3) by (cases c) (simp_all)
  show ?thesis
    using ne dg c
    by (simp add: m match_here_def takeWhile_digits_dot dropWhile_digits_dot Let_def)
qed

lemma match_here_sound:
  assumes "match_here s = Some m"
  shows "\<exists>post. s = m @ post \<and> version_pattern m"
proof -
  from assms obtain s1 s2 where
    a: "takeWhile is_digit s \<noteq> []" and d1: "dropWhile is_digit s = CHR ''.'' # s1"
    and b: "takeWhile is_digit s1 \<noteq> []" and d2: "dropWhile is_digit s1 = CHR ''.'' # s2"
    and c: "takeWhile is_digit s2 \<noteq> []"
    and m: "m = takeWhile is_digit s @ ''.'' @ takeWhile is_digit s1 @ ''.'' @ takeWhile is_digit s2"
    by (auto simp: match_here_def Let_def split: if_splits list.splits)
  have "s = takeWhile is_digit s @ dropWhile is_digit s" by simp
  also have "\<dots> = takeWhile is_digit s @ CHR ''.'' # (takeWhile is_digit s1 @ dropWhile is_digit s1)"
    by (simp add: d1)
  also have "\<dots> = takeWhile is_digit s @ CHR ''.'' # takeWhile is_digit s1 @ CHR ''.'' # (takeWhile is_digit s2 @ dropWhile is_digit s2)"
    by (simp add: d2)
  finally have "s = m @ dropWhile is_digit s2" by (simp add: m)
  moreover have "version_pattern m"
    unfolding version_pattern_def
    using a b c m by (intro exI [of _ "takeWhile is_digit s"] exI [of _ "takeWhile is_digit s1"] exI [of _ "takeWhile is_digit s2"])
      (auto simp: list_all_iff dest: set_takeWhileD)
  ultimately show ?thesis by blast
qed

lemma first_match_sound:
  "first_match t = Some m \<Longrightarrow> \<exists>pre post. t = pre @ m @ post \<and> version_pattern m"
proof (induction t)
  case Nil
  then show ?case by simp
next
  case (Cons x t)
  show ?case
  proof (cases "match_here (x # t)")
    case None
    with Cons obtain pre post where "t = pre @ m @ post" "version_pattern m" by auto
    then have "x # t = (x # pre) @ m @ post" by simp
    with \<open>version_pattern m\<close> show ?thesis by blast
  next
    case (Some m')
    with Cons.prems have "m' = m" by simp
    with Some match_here_sound [of "x # t" m] obtain post where "x # t = [] @ m @ post" "version_pattern m"
      by auto
    then show ?thesis by blast
  qed
qed

lemma version_pattern_nonempty: "version_pattern m \<Longrightarrow> m \<noteq> []"
  by (auto simp: version_pattern_def)

lemma first_match_complete:
  "version_pattern m \<Longrightarrow> first_match (pre @ m @ post) \<noteq> None"
proof (induction pre)
  case Nil
  then obtain x xs where "m @ post = x # xs" 
    using version_pattern_nonempty [of m] by (cases m) auto
  with match_here_complete [OF Nil, of post] show ?case
    by (auto split: option.splits)
next
  case (Cons x pre)
  then show ?case by (auto split: option.splits)
qed

lemma first_match_None_iff: "first_match t = None \<longleftrightarrow> \<not> contains_version t"
proof
  assume none: "first_match t = None"
  show "\<not> contains_version t"
  proof
    assume "contains_version t"
    then obtain pre m post where "t = pre @ m @ post" "version_pattern m"
      unfolding contains_version_def by blast
    with first_match_complete [of m pre post] none show False by simp
  qed
next
  assume no: "\<not> contains_version t"
  show "first_match t = None"
  proof (rule ccontr)
    assume "first_match t \<noteq> None"
    then obtain m where "first_match t = Some m" by auto
    from first_match_sound [OF this] no show False
      unfolding contains_version_def by blast
  qed
qed

text \<open>
  What the matcher returns is the first matched substring, and only that: the leftmost
  one, and the longest of those that start there.
\<close>

lemma match_here_extends:
  assumes "version_pattern m"
  shows "\<exists>ext. match_here (m @ post) = Some (m @ ext)"
proof -
  from assms obtain a b c where m: "m = a @ ''.'' @ b @ ''.'' @ c"
    and ne: "a \<noteq> []" "b \<noteq> []" "c \<noteq> []"
    and dg: "list_all is_digit a" "list_all is_digit b" "list_all is_digit c"
    unfolding version_pattern_def by blast
  have c: "takeWhile is_digit (c @ post) = c @ takeWhile is_digit post"
    using dg(3) by (simp add: takeWhile_append2 list_all_iff)
  have "match_here (m @ post) = Some (m @ takeWhile is_digit post)"
    using ne dg c
    by (simp add: m match_here_def takeWhile_digits_dot dropWhile_digits_dot Let_def)
  then show ?thesis by blast
qed

lemma first_match_decomp:
  "first_match t = Some got \<Longrightarrow>
   \<exists>pre post. t = pre @ got @ post \<and> match_here (got @ post) = Some got \<and>
     (\<forall>pre' s'. t = pre' @ s' \<and> length pre' < length pre \<longrightarrow> match_here s' = None)"
proof (induction t)
  case Nil
  then show ?case by simp
next
  case (Cons x t)
  show ?case
  proof (cases "match_here (x # t)")
    case (Some m)
    with Cons.prems have g: "m = got" by simp
    from match_here_sound [OF Some] obtain post where p: "x # t = got @ post"
      using g by auto
    have "x # t = [] @ got @ post \<and> match_here (got @ post) = Some got \<and>
      (\<forall>pre' s'. x # t = pre' @ s' \<and> length pre' < length ([] :: string) \<longrightarrow> match_here s' = None)"
      using p Some g by simp
    then show ?thesis by blast
  next
    case None
    with Cons.prems have "first_match t = Some got" by simp
    from Cons.IH [OF this] obtain pre post where t: "t = pre @ got @ post"
      and h: "match_here (got @ post) = Some got"
      and e: "\<forall>pre' s'. t = pre' @ s' \<and> length pre' < length pre \<longrightarrow> match_here s' = None"
      by blast
    have "\<forall>pre' s'. x # t = pre' @ s' \<and> length pre' < length (x # pre) \<longrightarrow> match_here s' = None"
    proof (intro allI impI)
      fix pre' s'
      assume a: "x # t = pre' @ s' \<and> length pre' < length (x # pre)"
      show "match_here s' = None"
      proof (cases pre')
        case Nil
        with a None show ?thesis by simp
      next
        case (Cons y ys)
        with a have "t = ys @ s'" "length ys < length pre" by simp_all
        with e show ?thesis by blast
      qed
    qed
    moreover have "x # t = (x # pre) @ got @ post" using t by simp
    ultimately show ?thesis using h by blast
  qed
qed

lemma first_match_first:
  assumes "first_match t = Some got"
  shows "first_version_match t got"
proof -
  from first_match_decomp [OF assms] obtain pre post where t: "t = pre @ got @ post"
    and h: "match_here (got @ post) = Some got"
    and e: "\<forall>pre' s'. t = pre' @ s' \<and> length pre' < length pre \<longrightarrow> match_here s' = None"
    by blast
  from match_here_sound [OF h] have vp: "version_pattern got" by blast
  have "\<forall>pre' m' post'. t = pre' @ m' @ post' \<and> version_pattern m' \<longrightarrow>
           length pre < length pre' \<or> (length pre' = length pre \<and> length m' \<le> length got)"
  proof (intro allI impI)
    fix pre' m' post'
    assume a: "t = pre' @ m' @ post' \<and> version_pattern m'"
    then obtain ext where x: "match_here (m' @ post') = Some (m' @ ext)"
      using match_here_extends by blast
    have nl: "\<not> length pre' < length pre"
      using e a x by force
    show "length pre < length pre' \<or> (length pre' = length pre \<and> length m' \<le> length got)"
    proof (cases "length pre' = length pre")
      case True
      with a t have "pre' = pre" "m' @ post' = got @ post" by auto
      with x h have "m' @ ext = got" by simp
      then have "length m' \<le> length got" by auto
      with True show ?thesis by simp
    next
      case False
      with nl show ?thesis by simp
    qed
  qed
  with t vp show ?thesis unfolding first_version_match_def by blast
qed

lemma first_version_match_unique:
  assumes "first_version_match t g1" and "first_version_match t g2"
  shows "g1 = g2"
proof -
  from assms(1) obtain pre1 post1 where t1: "t = pre1 @ g1 @ post1" and v1: "version_pattern g1"
    and a1: "\<forall>pre' m' post'. t = pre' @ m' @ post' \<and> version_pattern m' \<longrightarrow>
           length pre1 < length pre' \<or> (length pre' = length pre1 \<and> length m' \<le> length g1)"
    unfolding first_version_match_def by blast
  from assms(2) obtain pre2 post2 where t2: "t = pre2 @ g2 @ post2" and v2: "version_pattern g2"
    and a2: "\<forall>pre' m' post'. t = pre' @ m' @ post' \<and> version_pattern m' \<longrightarrow>
           length pre2 < length pre' \<or> (length pre' = length pre2 \<and> length m' \<le> length g2)"
    unfolding first_version_match_def by blast
  from a1 t2 v2 have b1: "length pre1 < length pre2 \<or> (length pre2 = length pre1 \<and> length g2 \<le> length g1)"
    by blast
  from a2 t1 v1 have b2: "length pre2 < length pre1 \<or> (length pre1 = length pre2 \<and> length g1 \<le> length g2)"
    by blast
  from b1 b2 have l: "length pre1 = length pre2" "length g1 = length g2" by auto
  from t1 t2 l(1) have "g1 @ post1 = g2 @ post2" by auto
  with l(2) show ?thesis by auto
qed

lemma first_match_iff: "first_match t = Some got \<longleftrightarrow> first_version_match t got"
proof
  assume "first_match t = Some got"
  then show "first_version_match t got" by (rule first_match_first)
next
  assume f: "first_version_match t got"
  then have "contains_version t"
    unfolding first_version_match_def contains_version_def by blast
  then obtain g where g: "first_match t = Some g"
    using first_match_None_iff [of t] by (cases "first_match t") auto
  from first_version_match_unique [OF first_match_first [OF g] f] g
  show "first_match t = Some got" by simp
qed

lemma split_on_first: "\<exists>ls. split_on d s = takeWhile (\<lambda>c. c \<noteq> d) s # ls"
  by (induction s) (auto split: list.splits)

subsection \<open>Unfolding the calls\<close>

lemmas io_defs = returnE_def throwE_def bindE_def catchE_def record_event_def
  pathExists_def stat_def readJSON_def download_def chmodSync_def spawnSync_def
  consoleInfo_def now_def set_instance_def

lemmas manifest_defs = versionInfoAtConstruction_def versionInfoAtDownload_def
  getCompilerVersionInfo_def readCompilerVersionInfo_def
  shouldDownloadCompilerVersionInfo_def downloadCompilerVersionInfo_def

lemmas example_defs = example_env_def example_info_def inconsistent_info_def manifest_file_def
  example_world_def example_session_def example_remote_def example_exec_def
  new_ZksolcCompilerDownloader_def getCompilerVersionInfoPath_def getCompilerPath_def
  compilerUrl_def

lemma advisories_append: "advisories (xs @ ys) = advisories xs @ advisories ys"
  by (induction xs rule: advisories.induct) simp_all

lemma fetches_to_append: "fetches_to p (xs @ ys) = fetches_to p xs + fetches_to p ys"
  by (induction p xs rule: fetches_to.induct) simp_all

text \<open>
  Consulting the manifest writes nothing to the console, leaves \<open>_instance\<close> alone and
  begins with the test whether the manifest file exists.
\<close>

lemma versionInfoAtConstruction_keeps:
  "advisories (trace (snd (versionInfoAtConstruction E this w))) = advisories (trace w) \<and>
   static_instance (snd (versionInfoAtConstruction E this w)) = static_instance w \<and>
   clock (snd (versionInfoAtConstruction E this w)) = clock w"
  by (auto simp: manifest_defs io_defs advisories_append
           split: sum.splits file_data.splits option.splits)

lemma versionInfoAtDownload_keeps:
  "advisories (trace (snd (versionInfoAtDownload E this w))) = advisories (trace w) \<and>
   static_instance (snd (versionInfoAtDownload E this w)) = static_instance w \<and>
   clock (snd (versionInfoAtDownload E this w)) = clock w"
  by (auto simp: manifest_defs io_defs advisories_append
           split: sum.splits file_data.splits option.splits)


subsection \<open>Session construction\<close>

text \<open>
  Claim C1. If the requested version is the literal \<open>latest\<close> or is equal, as a string,
  to the manifest's \<open>latest\<close> field, then \<open>getDownloaderWithVersionValidated\<close> returns a
  session whose version is exactly the manifest's \<open>latest\<close> field, whatever the manifest's
  \<open>minVersion\<close> is; it raises nothing and writes no advisory. The manifest is the one that
  the first part of the construction ends with, \<open>info\<close>; nothing is asked of it.
\<close>

theorem latest_resolves_to_manifest_latest:
  assumes "static_instance w = None"
    and "this = new_ZksolcCompilerDownloader E v cp d"
    and "versionInfoAtConstruction E this (w\<lparr>static_instance := Some this\<rparr>) = (Inr info, w1)"
    and "v = ''latest'' \<or> v = latest info"
  shows "getDownloaderWithVersionValidated E v cp d w =
           (Inr (this\<lparr>version := latest info\<rparr>),
            w1\<lparr>static_instance := Some (this\<lparr>version := latest info\<rparr>)\<rparr>) \<and>
         advisories (trace w1) = advisories (trace w)"
proof -
  have "advisories (trace w1) = advisories (trace w)"
    using versionInfoAtConstruction_keeps [of E this "w\<lparr>static_instance := Some this\<rparr>"] assms(3)
    by simp
  moreover have "getDownloaderWithVersionValidated E v cp d w =
           (Inr (this\<lparr>version := latest info\<rparr>),
            w1\<lparr>static_instance := Some (this\<lparr>version := latest info\<rparr>)\<rparr>)"
    using assms
    by (auto simp: getDownloaderWithVersionValidated_def Let_def bindE_def set_instance_def
          returnE_def)
  ultimately show ?thesis by simp
qed

text \<open>
  The alias \<open>latest\<close> against a fresh manifest whose lower bound is above its latest: the
  session gets the version \<open>1.3.13\<close>, and the console stays silent.
\<close>

theorem latest_resolves_to_manifest_latest_witness:
  "getDownloaderWithVersionValidated (example_env (example_remote inconsistent_info) example_exec)
     ''latest'' [] ''/c''
     (example_world [''/c/zksolc/compilerVersionInfo.json'' \<mapsto> manifest_file inconsistent_info 500] 1000) =
   (Inr (example_session ''1.3.13''),
    \<lparr>files = [''/c/zksolc/compilerVersionInfo.json'' \<mapsto> manifest_file inconsistent_info 500],
     clock = 1000,
     trace = [PathExists ''/c/zksolc/compilerVersionInfo.json'',
              ReadJSON ''/c/zksolc/compilerVersionInfo.json'',
              PathExists ''/c/zksolc/compilerVersionInfo.json'',
              Stat ''/c/zksolc/compilerVersionInfo.json''],
     static_instance = Some (example_session ''1.3.13'')\<rparr>)"
proof -
  let ?E = "example_env (example_remote inconsistent_info) example_exec"
  let ?w = "example_world [''/c/zksolc/compilerVersionInfo.json'' \<mapsto> manifest_file inconsistent_info 500] 1000"
  let ?s0 = "new_ZksolcCompilerDownloader ?E ''latest'' [] ''/c''"
  have n: "static_instance ?w = None" by (simp add: example_world_def)
  have h: "versionInfoAtConstruction ?E ?s0 (?w\<lparr>static_instance := Some ?s0\<rparr>) =
      (Inr inconsistent_info, snd (versionInfoAtConstruction ?E ?s0 (?w\<lparr>static_instance := Some ?s0\<rparr>)))"
    by (simp add: manifest_defs io_defs example_defs)
  have l: "''latest'' = ''latest'' \<or> ''latest'' = latest inconsistent_info" by simp
  from latest_resolves_to_manifest_latest [OF n refl h l] show ?thesis
    by (simp add: manifest_defs io_defs example_defs)
qed

text \<open>
  Claim C9. Once \<open>_instance\<close> is set, \<open>getDownloaderWithVersionValidated\<close> ignores its
  three arguments: it returns the stored session as it is and leaves the world as it was,
  so it reads no manifest, fetches nothing, validates nothing and writes nothing. And
  \<open>_instance\<close> is set after any first call, also after one that raised: every call after
  the first finds it set.
\<close>

theorem later_calls_return_singleton:
  "(static_instance w = Some inst \<longrightarrow>
      getDownloaderWithVersionValidated E v cp d w = (Inr inst, w)) \<and>
   static_instance (snd (getDownloaderWithVersionValidated E v' cp' d' w)) \<noteq> None"
proof -
  have "static_instance (snd (getDownloaderWithVersionValidated E v' cp' d' w)) \<noteq> None"
  proof (cases "static_instance w")
    case None
    let ?new = "new_ZksolcCompilerDownloader E v' cp' d'"
    let ?w0 = "w\<lparr>static_instance := Some ?new\<rparr>"
    obtain r w1 where m: "versionInfoAtConstruction E ?new ?w0 = (r, w1)"
      by (cases "versionInfoAtConstruction E ?new ?w0")
    have "static_instance w1 = Some ?new"
      using versionInfoAtConstruction_keeps [of E ?new ?w0] m by simp
    with None m show ?thesis
      by (auto simp: getDownloaderWithVersionValidated_def Let_def io_defs
            split: sum.splits option.splits)
  next
    case (Some inst')
    then show ?thesis
      by (simp add: getDownloaderWithVersionValidated_def returnE_def)
  qed
  then show ?thesis
    by (simp add: getDownloaderWithVersionValidated_def returnE_def)
qed

text \<open>
  A second call that asks for the version \<open>9.9.9\<close> from another source and directory
  gets the session of version \<open>1.3.5\<close> back; no file exists and none is asked for.
\<close>

theorem later_calls_return_singleton_witness:
  "getDownloaderWithVersionValidated (example_env (example_remote example_info) example_exec)
     ''9.9.9'' ''https://other'' ''/elsewhere''
     ((example_world Map.empty 0)\<lparr>static_instance := Some (example_session ''1.3.5'')\<rparr>) =
   (Inr (example_session ''1.3.5''),
    (example_world Map.empty 0)\<lparr>static_instance := Some (example_session ''1.3.5'')\<rparr>)"
proof -
  have h: "static_instance ((example_world Map.empty 0)\<lparr>static_instance := Some (example_session ''1.3.5'')\<rparr>) =
      Some (example_session ''1.3.5'')"
    by simp
  from later_calls_return_singleton [THEN conjunct1, THEN mp, OF h] show ?thesis .
qed

lemma parse_latest_alias: "parse_semver ''latest'' = None"
  by (simp add: parse_semver_def cut_def numeric_identifier_def is_digit_def)

lemmas semver_eval = isVersionInRange_def parse_semver_def cut_def numeric_identifier_def
  is_digit_def digits_to_nat_def compare_semver_def compare_nat_def compare_prerelease_def

lemmas download_defs = downloadCompiler_def private_downloadCompiler_def
  postProcessCompilerDownload_def verifyCompiler_def first_line_message_def match_here_def

text \<open>
  Claim C6. A requested version strictly between the manifest's \<open>minVersion\<close> and its
  \<open>latest\<close> (in the ordering of semantic versions; such a version is neither the alias
  \<open>latest\<close> nor equal to \<open>latest\<close>) is accepted at session construction: the call returns
  the session with the requested string as its version, raises nothing, and writes exactly
  one advisory, the warning that the pinned version is behind the published latest.
\<close>

theorem pinned_version_in_range_advisory:
  assumes "static_instance w = None"
    and "this = new_ZksolcCompilerDownloader E v cp d"
    and "versionInfoAtConstruction E this (w\<lparr>static_instance := Some this\<rparr>) = (Inr info, w1)"
    and "parse_semver v = Some x"
    and "parse_semver (minVersion info) = Some lo"
    and "parse_semver (latest info) = Some hi"
    and "compare_semver lo x < 0" and "compare_semver x hi < 0"
  shows "getDownloaderWithVersionValidated E v cp d w =
           (Inr this, record_event (ConsoleInfo (COMPILER_VERSION_WARNING v (latest info))) w1) \<and>
         version this = v \<and> static_instance w1 = Some this \<and>
         advisories (trace (record_event (ConsoleInfo (COMPILER_VERSION_WARNING v (latest info))) w1)) =
           advisories (trace w) @ [COMPILER_VERSION_WARNING v (latest info)]"
proof -
  have keeps: "advisories (trace w1) = advisories (trace w)" "static_instance w1 = Some this"
    using versionInfoAtConstruction_keeps [of E this "w\<lparr>static_instance := Some this\<rparr>"] assms(3)
    by simp_all
  have not_alias: "v \<noteq> ''latest''"
    using assms(4) parse_latest_alias by auto
  have not_latest: "v \<noteq> latest info"
  proof
    assume "v = latest info"
    with assms(4,6) have "x = hi" by simp
    with assms(8) compare_semver_refl [of hi] show False by simp
  qed
  have "0 \<le> compare_semver x lo"
    using assms(7) compare_semver_flip [of x lo] by simp
  then have inr: "isVersionInRange v info = Some True"
    using assms(4-6,8) by (simp add: isVersionInRange_def)
  have "getDownloaderWithVersionValidated E v cp d w =
           (Inr this, record_event (ConsoleInfo (COMPILER_VERSION_WARNING v (latest info))) w1)"
    using assms(1-3) not_alias not_latest inr
    by (simp add: getDownloaderWithVersionValidated_def Let_def bindE_def set_instance_def
          returnE_def consoleInfo_def)
  moreover have "version this = v"
    by (simp add: assms(2) new_ZksolcCompilerDownloader_def)
  ultimately show ?thesis
    using keeps by (simp add: record_event_def advisories_append)
qed

text \<open>
  The scenario of the spec: manifest \<open>{latest: 1.3.13, minVersion: 1.3.0}\<close>, requested
  \<open>1.3.5\<close>.
\<close>

theorem pinned_version_in_range_advisory_witness:
  "getDownloaderWithVersionValidated (example_env (example_remote example_info) example_exec)
     ''1.3.5'' [] ''/c''
     (example_world [''/c/zksolc/compilerVersionInfo.json'' \<mapsto> manifest_file example_info 500] 1000) =
   (Inr (example_session ''1.3.5''),
    \<lparr>files = [''/c/zksolc/compilerVersionInfo.json'' \<mapsto> manifest_file example_info 500],
     clock = 1000,
     trace = [PathExists ''/c/zksolc/compilerVersionInfo.json'',
              ReadJSON ''/c/zksolc/compilerVersionInfo.json'',
              PathExists ''/c/zksolc/compilerVersionInfo.json'',
              Stat ''/c/zksolc/compilerVersionInfo.json'',
              ConsoleInfo (COMPILER_VERSION_WARNING ''1.3.5'' ''1.3.13'')],
     static_instance = Some (example_session ''1.3.5'')\<rparr>)"
proof -
  let ?E = "example_env (example_remote example_info) example_exec"
  let ?w = "example_world [''/c/zksolc/compilerVersionInfo.json'' \<mapsto> manifest_file example_info 500] 1000"
  let ?s0 = "new_ZksolcCompilerDownloader ?E ''1.3.5'' [] ''/c''"
  have n: "static_instance ?w = None" by (simp add: example_world_def)
  have h: "versionInfoAtConstruction ?E ?s0 (?w\<lparr>static_instance := Some ?s0\<rparr>) =
      (Inr example_info, snd (versionInfoAtConstruction ?E ?s0 (?w\<lparr>static_instance := Some ?s0\<rparr>)))"
    by (simp add: manifest_defs io_defs example_defs)
  have p1: "parse_semver ''1.3.5'' = Some \<lparr>major = 1, minor = 3, patch = 5, prerelease = []\<rparr>"
    by (simp add: semver_eval)
  have p2: "parse_semver (minVersion example_info) =
      Some \<lparr>major = 1, minor = 3, patch = 0, prerelease = []\<rparr>"
    by (simp add: semver_eval example_info_def)
  have p3: "parse_semver (latest example_info) =
      Some \<lparr>major = 1, minor = 3, patch = 13, prerelease = []\<rparr>"
    by (simp add: semver_eval example_info_def)
  have c1: "compare_semver \<lparr>major = 1, minor = 3, patch = 0, prerelease = []\<rparr>
      \<lparr>major = 1, minor = 3, patch = 5, prerelease = []\<rparr> < 0"
    by (simp add: semver_eval)
  have c2: "compare_semver \<lparr>major = 1, minor = 3, patch = 5, prerelease = []\<rparr>
      \<lparr>major = 1, minor = 3, patch = 13, prerelease = []\<rparr> < 0"
    by (simp add: semver_eval)
  from pinned_version_in_range_advisory [OF n refl h p1 p2 p3 c1 c2] show ?thesis
    by (simp add: manifest_defs io_defs example_defs)
qed

text \<open>
  Claim C4. A requested version that is not the alias \<open>latest\<close>, not equal to the
  manifest's \<open>latest\<close> and outside the inclusive range from \<open>minVersion\<close> to \<open>latest\<close>
  makes the resolution fail with the version-range error, and the error holds the
  requested version string, \<open>minVersion\<close> and \<open>latest\<close>. This is so at session construction
  and in \<open>downloadCompiler\<close>, where the version is the session's.
\<close>

theorem out_of_range_raises_range_error:
  "(static_instance w = None \<and> this = new_ZksolcCompilerDownloader E v cp d \<and>
    versionInfoAtConstruction E this (w\<lparr>static_instance := Some this\<rparr>) = (Inr info, w1) \<and>
    v \<noteq> ''latest'' \<and> v \<noteq> latest info \<and> isVersionInRange v info = Some False
    \<longrightarrow> getDownloaderWithVersionValidated E v cp d w =
          (Inl (ZkSyncSolcPluginError
                  (COMPILER_VERSION_RANGE_ERROR v (minVersion info) (latest info))), w1)) \<and>
   (versionInfoAtDownload E s w = (Inr info, w1) \<and>
    isVersionInRange (version s) info = Some False
    \<longrightarrow> downloadCompiler E s w =
          (Inl (ZkSyncSolcPluginError
                  (COMPILER_VERSION_RANGE_ERROR (version s) (minVersion info) (latest info))), w1))"
  by (auto simp: getDownloaderWithVersionValidated_def downloadCompiler_def Let_def bindE_def
        set_instance_def throwE_def)

text \<open>
  Against the window from \<open>1.3.0\<close> to \<open>1.3.13\<close>: the version \<open>1.4.0\<close> at construction
  and a session of version \<open>1.2.9\<close> in \<open>downloadCompiler\<close>.
\<close>

theorem out_of_range_raises_range_error_witness:
  "getDownloaderWithVersionValidated (example_env (example_remote example_info) example_exec)
     ''1.4.0'' [] ''/c''
     (example_world [''/c/zksolc/compilerVersionInfo.json'' \<mapsto> manifest_file example_info 500] 1000) =
   (Inl (ZkSyncSolcPluginError (COMPILER_VERSION_RANGE_ERROR ''1.4.0'' ''1.3.0'' ''1.3.13'')),
    \<lparr>files = [''/c/zksolc/compilerVersionInfo.json'' \<mapsto> manifest_file example_info 500],
     clock = 1000,
     trace = [PathExists ''/c/zksolc/compilerVersionInfo.json'',
              ReadJSON ''/c/zksolc/compilerVersionInfo.json'',
              PathExists ''/c/zksolc/compilerVersionInfo.json'',
              Stat ''/c/zksolc/compilerVersionInfo.json''],
     static_instance = Some (example_session ''1.4.0'')\<rparr>) \<and>
   downloadCompiler (example_env (example_remote example_info) example_exec)
     (example_session ''1.2.9'')
     (example_world [''/c/zksolc/compilerVersionInfo.json'' \<mapsto> manifest_file example_info 500] 1000) =
   (Inl (ZkSyncSolcPluginError (COMPILER_VERSION_RANGE_ERROR ''1.2.9'' ''1.3.0'' ''1.3.13'')),
    \<lparr>files = [''/c/zksolc/compilerVersionInfo.json'' \<mapsto> manifest_file example_info 500],
     clock = 1000,
     trace = [PathExists ''/c/zksolc/compilerVersionInfo.json'',
              ReadJSON ''/c/zksolc/compilerVersionInfo.json''],
     static_instance = None\<rparr>)"
proof -
  let ?E = "example_env (example_remote example_info) example_exec"
  let ?w = "example_world [''/c/zksolc/compilerVersionInfo.json'' \<mapsto> manifest_file example_info 500] 1000"
  let ?s0 = "new_ZksolcCompilerDownloader ?E ''1.4.0'' [] ''/c''"
  let ?s1 = "example_session ''1.2.9''"
  have r1: "isVersionInRange ''1.4.0'' example_info = Some False"
    by (simp add: semver_eval example_info_def)
  have r2: "isVersionInRange (version ?s1) example_info = Some False"
    by (simp add: semver_eval example_info_def example_session_def)
  have h1: "static_instance ?w = None \<and> ?s0 = new_ZksolcCompilerDownloader ?E ''1.4.0'' [] ''/c'' \<and>
      versionInfoAtConstruction ?E ?s0 (?w\<lparr>static_instance := Some ?s0\<rparr>) =
        (Inr example_info, snd (versionInfoAtConstruction ?E ?s0 (?w\<lparr>static_instance := Some ?s0\<rparr>))) \<and>
      ''1.4.0'' \<noteq> ''latest'' \<and> ''1.4.0'' \<noteq> latest example_info \<and>
      isVersionInRange ''1.4.0'' example_info = Some False"
    using r1 by (simp add: manifest_defs io_defs example_defs)
  have h2: "versionInfoAtDownload ?E ?s1 ?w =
        (Inr example_info, snd (versionInfoAtDownload ?E ?s1 ?w)) \<and>
      isVersionInRange (version ?s1) example_info = Some False"
    using r2 by (simp add: manifest_defs io_defs example_defs)
  from out_of_range_raises_range_error [THEN conjunct1, THEN mp, OF h1] out_of_range_raises_range_error [THEN conjunct2, THEN mp, OF h2]
  show ?thesis
    by (simp add: manifest_defs io_defs example_defs)
qed

subsection \<open>Verification\<close>

text \<open>
  Claim C5. \<open>verifyCompiler\<close> raises the binary-corruption error exactly when the exit
  status of the subprocess is not zero or its standard output has no substring of the
  form \<open>\d+\.\d+\.\d+\<close>; otherwise it returns normally. When it does not raise (the status
  is zero and there is a match) and the first matched substring differs from the session's
  version, it writes the mismatch advisory, naming that substring, and returns normally;
  when the first matched substring is the session's version it writes nothing.
\<close>

theorem verifyCompiler_classification:
  fixes E this w
  assumes "out = run E (getCompilerPath E this) [''--version''] (files w (getCompilerPath E this))"
  shows "((fst (verifyCompiler E this w) =
             Inl (ZkSyncSolcPluginError COMPILER_BINARY_CORRUPTION_ERROR)) =
            (status out \<noteq> Some 0 \<or> \<not> (\<exists>t. stdout out = Some t \<and> contains_version t))) \<and>
         ((fst (verifyCompiler E this w) = Inr ()) =
            (status out = Some 0 \<and> (\<exists>t. stdout out = Some t \<and> contains_version t))) \<and>
         (status out = Some 0 \<and> stdout out = Some t \<and> first_version_match t got \<and>
          got \<noteq> version this \<longrightarrow>
            verifyCompiler E this w =
              (Inr (),
               w\<lparr>trace := trace w @
                  [SpawnSync (getCompilerPath E this) [''--version''],
                   ConsoleInfo (Text (''zksolc compiler version mismatch: expected ''
                                      @ version this @ '', got '' @ got))]\<rparr>)) \<and>
         (status out = Some 0 \<and> stdout out = Some t \<and> first_version_match t got \<and>
          got = version this \<longrightarrow>
            verifyCompiler E this w =
              (Inr (),
               w\<lparr>trace := trace w @ [SpawnSync (getCompilerPath E this) [''--version'']]\<rparr>))"
proof -
  have m: "(\<exists>t. stdout out = Some t \<and> contains_version t) =
           ((case stdout out of None \<Rightarrow> None | Some t \<Rightarrow> first_match t) \<noteq> None)"
    by (cases "stdout out") (simp_all add: first_match_None_iff)
  show ?thesis
    unfolding m first_match_iff [symmetric]
    by (auto simp: verifyCompiler_def io_defs Let_def assms split: option.splits)
qed

text \<open>
  An output with two matches, \<open>zksolc version 10.3.13 llvm 0.3.13\<close>, and a session of
  version \<open>0.3.13\<close>: the first match is \<open>10.3.13\<close>, so the advisory is written, though a
  later match (and a match that starts one character further right) is the session's
  version.
\<close>

theorem verifyCompiler_classification_witness:
  "verifyCompiler (example_env (example_remote example_info) example_exec)
     (example_session ''0.3.13'')
     (example_world [''/c/zksolc/zksolc-v0.3.13'' \<mapsto>
        \<lparr>data = Bytes ''zksolc 10.3.13 llvm 0.3.13'', ctimeMs = 500, mode = 493\<rparr>] 1000) =
   (Inr (),
    \<lparr>files = [''/c/zksolc/zksolc-v0.3.13'' \<mapsto>
        \<lparr>data = Bytes ''zksolc 10.3.13 llvm 0.3.13'', ctimeMs = 500, mode = 493\<rparr>],
     clock = 1000,
     trace = [SpawnSync ''/c/zksolc/zksolc-v0.3.13'' [''--version''],
              ConsoleInfo (Text ''zksolc compiler version mismatch: expected 0.3.13, got 10.3.13'')],
     static_instance = None\<rparr>)"
proof -
  let ?E = "example_env (example_remote example_info) example_exec"
  let ?s = "example_session ''0.3.13''"
  let ?w = "example_world [''/c/zksolc/zksolc-v0.3.13'' \<mapsto>
        \<lparr>data = Bytes ''zksolc 10.3.13 llvm 0.3.13'', ctimeMs = 500, mode = 493\<rparr>] 1000"
  let ?out = "run ?E (getCompilerPath ?E ?s) [''--version''] (files ?w (getCompilerPath ?E ?s))"
  have "first_match ''zksolc version 10.3.13 llvm 0.3.13'' = Some ''10.3.13''"
    by (simp add: match_here_def is_digit_def)
  then have fm: "first_version_match ''zksolc version 10.3.13 llvm 0.3.13'' ''10.3.13''"
    by (rule first_match_first)
  have h: "status ?out = Some 0 \<and> stdout ?out = Some ''zksolc version 10.3.13 llvm 0.3.13'' \<and>
      first_version_match ''zksolc version 10.3.13 llvm 0.3.13'' ''10.3.13'' \<and>
      ''10.3.13'' \<noteq> version ?s"
    using fm by (simp add: example_defs)
  from verifyCompiler_classification [OF refl, THEN conjunct2, THEN conjunct2, THEN conjunct1, THEN mp, OF h]
  show ?thesis
    by (simp add: example_defs)
qed

subsection \<open>Download\<close>

lemma private_downloadCompiler_fails:
  "remote E (compilerUrl E this) = Inl msg \<Longrightarrow>
   private_downloadCompiler E this w =
     (Inl (DownloadError msg),
      record_event (Download (compilerUrl E this) (getCompilerPath E this)) w)"
  by (simp add: private_downloadCompiler_def compilerUrl_def io_defs Let_def)

lemma first_line_message_eq:
  "first_line_message (DownloadError msg) = Text (takeWhile (\<lambda>c. c \<noteq> CHR 0x0A) msg)"
  using split_on_first [of "CHR 0x0A" msg] by (auto simp: first_line_message_def)

text \<open>
  Claim C8. When the download of the binary fails with a transport error, the caller of
  \<open>downloadCompiler\<close> gets a plugin error whose message is the first line of the
  transport error's message: the part before the first line feed, the rest dropped.
\<close>

theorem transport_error_first_line:
  assumes "versionInfoAtDownload E this w = (Inr info, w1)"
    and "isVersionInRange (version this) info = Some True"
    and "remote E (compilerUrl E this) = Inl msg"
  shows "downloadCompiler E this w =
           (Inl (ZkSyncSolcPluginError (Text (takeWhile (\<lambda>c. c \<noteq> CHR 0x0A) msg))),
            record_event (Download (compilerUrl E this) (getCompilerPath E this)) w1)"
  using assms private_downloadCompiler_fails [OF assms(3), of w1]
  by (simp add: downloadCompiler_def bindE_def catchE_def throwE_def first_line_message_eq)

text \<open>A transport error of two lines; only \<open>connect ETIMEDOUT\<close> reaches the caller.\<close>

theorem transport_error_first_line_witness:
  "downloadCompiler (example_env (example_remote example_info) example_exec)
     (example_session ''1.3.7'')
     (example_world [''/c/zksolc/compilerVersionInfo.json'' \<mapsto> manifest_file example_info 500] 1000) =
   (Inl (ZkSyncSolcPluginError (Text ''connect ETIMEDOUT'')),
    \<lparr>files = [''/c/zksolc/compilerVersionInfo.json'' \<mapsto> manifest_file example_info 500],
     clock = 1000,
     trace = [PathExists ''/c/zksolc/compilerVersionInfo.json'',
              ReadJSON ''/c/zksolc/compilerVersionInfo.json'',
              Download ''https://bin/zksolc-v1.3.7'' ''/c/zksolc/zksolc-v1.3.7''],
     static_instance = None\<rparr>)"
proof -
  let ?E = "example_env (example_remote example_info) example_exec"
  let ?s = "example_session ''1.3.7''"
  let ?w = "example_world [''/c/zksolc/compilerVersionInfo.json'' \<mapsto> manifest_file example_info 500] 1000"
  have h: "versionInfoAtDownload ?E ?s ?w = (Inr example_info, snd (versionInfoAtDownload ?E ?s ?w))"
    by (simp add: manifest_defs io_defs example_defs)
  have r: "isVersionInRange (version ?s) example_info = Some True"
    by (simp add: semver_eval example_info_def example_session_def)
  have m: "remote ?E (compilerUrl ?E ?s) = Inl ''connect ETIMEDOUT\<newline>    at TCPConnectWrap''"
    by (simp add: example_defs)
  from transport_error_first_line [OF h r m] show ?thesis
    by (simp add: manifest_defs io_defs example_defs)
qed

lemma private_downloadCompiler_ok:
  "remote E (compilerUrl E this) = Inr body \<Longrightarrow>
   private_downloadCompiler E this w =
     (Inr (getCompilerPath E this),
      w\<lparr>files := (files w)(getCompilerPath E this \<mapsto>
                     \<lparr>data = body, ctimeMs = clock w, mode = new_file_mode E\<rparr>),
        trace := trace w @ [Download (compilerUrl E this) (getCompilerPath E this)]\<rparr>)"
  by (simp add: private_downloadCompiler_def compilerUrl_def io_defs Let_def)

lemma install_steps:
  assumes "remote E (compilerUrl E this) = Inr body"
  shows "bindE (catchE (private_downloadCompiler E this) h) (\<lambda>_.
           bindE (postProcessCompilerDownload E this) (\<lambda>_. verifyCompiler E this)) w =
         verifyCompiler E this
           (w\<lparr>files := (files w)(getCompilerPath E this \<mapsto>
                          \<lparr>data = body, ctimeMs = clock w, mode = 493\<rparr>),
             trace := trace w @ [Download (compilerUrl E this) (getCompilerPath E this),
                                 ChmodSync (getCompilerPath E this) 493]\<rparr>)"
  using private_downloadCompiler_ok [OF assms, of w]
  by (simp add: bindE_def catchE_def postProcessCompilerDownload_def chmodSync_def
        record_event_def)

lemma verifyCompiler_world:
  "files (snd (verifyCompiler E this w)) = files w \<and>
   (\<exists>adv. trace (snd (verifyCompiler E this w)) =
            trace w @ [SpawnSync (getCompilerPath E this) [''--version'']] @ adv) \<and>
   (fst (verifyCompiler E this w) = Inr () \<or>
    fst (verifyCompiler E this w) = Inl (ZkSyncSolcPluginError COMPILER_BINARY_CORRUPTION_ERROR))"
  by (auto simp: verifyCompiler_def io_defs Let_def split: option.splits)

lemma downloadCompiler_in_range:
  assumes "versionInfoAtDownload E this w = (Inr info, w1)"
    and "isVersionInRange (version this) info = Some True"
    and "remote E (compilerUrl E this) = Inr body"
  shows "downloadCompiler E this w =
         verifyCompiler E this
           (w1\<lparr>files := (files w1)(getCompilerPath E this \<mapsto>
                          \<lparr>data = body, ctimeMs = clock w, mode = 493\<rparr>),
              trace := trace w1 @ [Download (compilerUrl E this) (getCompilerPath E this),
                                  ChmodSync (getCompilerPath E this) 493]\<rparr>)"
proof -
  have "clock w1 = clock w"
    using versionInfoAtDownload_keeps [of E this w] assms(1) by simp
  then show ?thesis
    using assms(1,2) install_steps [OF assms(3), of _ w1]
    by (simp add: downloadCompiler_def bindE_def [of "versionInfoAtDownload E this"])
qed





lemma versionInfoAtDownload_errors:
  "fst (versionInfoAtDownload E this w) = Inl e \<Longrightarrow>
   e = ZkSyncSolcPluginError COMPILER_VERSION_INFO_FILE_DOWNLOAD_ERROR \<or>
   e = ZkSyncSolcPluginError COMPILER_VERSION_INFO_FILE_NOT_FOUND_ERROR \<or>
   e = SyntaxError \<or> (\<exists>m. e = SystemError m)"
  by (auto simp: manifest_defs io_defs split: sum.splits file_data.splits option.splits if_splits)

lemma first_line_message_cases:
  "first_line_message e = Undefined \<or> (\<exists>l. first_line_message e = Text l)"
  by (auto simp: first_line_message_def split: error.splits list.splits)

text \<open>
  Claim C10. When \<open>downloadCompiler\<close> ends with the corruption error of
  \<open>verifyCompiler\<close>, the download and the change of mode have been done and nothing is
  undone: the downloaded file is at the compiler's path with the mode \<open>0o755\<close>, and the
  last three calls were the download, the chmod and the run of the binary.
\<close>

theorem corrupt_binary_stays_on_disk:
  assumes "downloadCompiler E this w =
             (Inl (ZkSyncSolcPluginError COMPILER_BINARY_CORRUPTION_ERROR), w')"
  shows "\<exists>body. remote E (compilerUrl E this) = Inr body \<and>
           files w' (getCompilerPath E this) = Some \<lparr>data = body, ctimeMs = clock w, mode = 493\<rparr> \<and>
           (\<exists>pre. trace w' = pre @ [Download (compilerUrl E this) (getCompilerPath E this),
                                     ChmodSync (getCompilerPath E this) 493,
                                     SpawnSync (getCompilerPath E this) [''--version'']])"
proof -
  obtain r w1 where v: "versionInfoAtDownload E this w = (r, w1)" by (cases "versionInfoAtDownload E this w")
  show ?thesis
  proof (cases r)
    case (Inl e)
    with v assms have "e = ZkSyncSolcPluginError COMPILER_BINARY_CORRUPTION_ERROR"
      by (simp add: downloadCompiler_def bindE_def)
    with versionInfoAtDownload_errors [of E this w e] v Inl show ?thesis by simp
  next
    case (Inr info)
    show ?thesis
    proof (cases "isVersionInRange (version this) info")
      case None
      with v Inr assms show ?thesis by (simp add: downloadCompiler_def bindE_def throwE_def)
    next
      case (Some inRange)
      show ?thesis
      proof (cases inRange)
        case False
        with Some v Inr assms show ?thesis by (simp add: downloadCompiler_def bindE_def throwE_def)
      next
        case True
        show ?thesis
        proof (cases "remote E (compilerUrl E this)")
          case (Inl msg)
          from private_downloadCompiler_fails [OF Inl, of w1] v Inr Some True assms
            first_line_message_cases [of "DownloadError msg"]
          show ?thesis
            by (auto simp: downloadCompiler_def bindE_def catchE_def throwE_def)
        next
          case (Inr body)
          let ?w2 = "w1\<lparr>files := (files w1)(getCompilerPath E this \<mapsto>
                          \<lparr>data = body, ctimeMs = clock w, mode = 493\<rparr>),
              trace := trace w1 @ [Download (compilerUrl E this) (getCompilerPath E this),
                                  ChmodSync (getCompilerPath E this) 493]\<rparr>"
          have v': "versionInfoAtDownload E this w = (Inr info, w1)"
            using v \<open>r = Inr info\<close> by simp
          have r': "isVersionInRange (version this) info = Some True"
            using Some True by simp
          have d: "downloadCompiler E this w = verifyCompiler E this ?w2"
            by (rule downloadCompiler_in_range [OF v' r' Inr])
          have "verifyCompiler E this ?w2 =
              (Inl (ZkSyncSolcPluginError COMPILER_BINARY_CORRUPTION_ERROR), w')"
            using d assms by simp
          then have "w' = record_event (SpawnSync (getCompilerPath E this) [''--version'']) ?w2"
            by (auto simp: verifyCompiler_def io_defs Let_def split: option.splits if_splits)
          with Inr show ?thesis by (simp add: record_event_def)
        qed
      qed
    qed
  qed
qed

text \<open>A binary that exits with status 1: the error is raised and the file stays.\<close>

theorem corrupt_binary_stays_on_disk_witness:
  "downloadCompiler (example_env (example_remote example_info) (\<lambda>f. \<lparr>status = Some 1, stdout = Some []\<rparr>))
     (example_session ''1.3.5'')
     (example_world [''/c/zksolc/compilerVersionInfo.json'' \<mapsto> manifest_file example_info 500] 1000) =
   (Inl (ZkSyncSolcPluginError COMPILER_BINARY_CORRUPTION_ERROR),
    \<lparr>files = [''/c/zksolc/compilerVersionInfo.json'' \<mapsto> manifest_file example_info 500,
              ''/c/zksolc/zksolc-v1.3.5'' \<mapsto>
                \<lparr>data = Bytes ''zksolc 1.3.5'', ctimeMs = 1000, mode = 493\<rparr>],
     clock = 1000,
     trace = [PathExists ''/c/zksolc/compilerVersionInfo.json'',
              ReadJSON ''/c/zksolc/compilerVersionInfo.json'',
              Download ''https://bin/zksolc-v1.3.5'' ''/c/zksolc/zksolc-v1.3.5'',
              ChmodSync ''/c/zksolc/zksolc-v1.3.5'' 493,
              SpawnSync ''/c/zksolc/zksolc-v1.3.5'' [''--version'']],
     static_instance = None\<rparr>) \<and>
   (\<exists>body. files \<lparr>files = [''/c/zksolc/compilerVersionInfo.json'' \<mapsto> manifest_file example_info 500,
              ''/c/zksolc/zksolc-v1.3.5'' \<mapsto>
                \<lparr>data = Bytes ''zksolc 1.3.5'', ctimeMs = 1000, mode = 493\<rparr>],
     clock = 1000,
     trace = [PathExists ''/c/zksolc/compilerVersionInfo.json'',
              ReadJSON ''/c/zksolc/compilerVersionInfo.json'',
              Download ''https://bin/zksolc-v1.3.5'' ''/c/zksolc/zksolc-v1.3.5'',
              ChmodSync ''/c/zksolc/zksolc-v1.3.5'' 493,
              SpawnSync ''/c/zksolc/zksolc-v1.3.5'' [''--version'']],
     static_instance = None\<rparr> ''/c/zksolc/zksolc-v1.3.5'' =
       Some \<lparr>data = body, ctimeMs = 1000, mode = 493\<rparr>)"
proof -
  let ?E = "example_env (example_remote example_info) (\<lambda>f. \<lparr>status = Some 1, stdout = Some []\<rparr>)"
  let ?s = "example_session ''1.3.5''"
  let ?w = "example_world [''/c/zksolc/compilerVersionInfo.json'' \<mapsto> manifest_file example_info 500] 1000"
  let ?w' = "\<lparr>files = [''/c/zksolc/compilerVersionInfo.json'' \<mapsto> manifest_file example_info 500,
              ''/c/zksolc/zksolc-v1.3.5'' \<mapsto>
                \<lparr>data = Bytes ''zksolc 1.3.5'', ctimeMs = 1000, mode = 493\<rparr>],
     clock = 1000,
     trace = [PathExists ''/c/zksolc/compilerVersionInfo.json'',
              ReadJSON ''/c/zksolc/compilerVersionInfo.json'',
              Download ''https://bin/zksolc-v1.3.5'' ''/c/zksolc/zksolc-v1.3.5'',
              ChmodSync ''/c/zksolc/zksolc-v1.3.5'' 493,
              SpawnSync ''/c/zksolc/zksolc-v1.3.5'' [''--version'']],
     static_instance = None\<rparr>"
  have r: "isVersionInRange ''1.3.5'' example_info = Some True"
    by (simp add: semver_eval example_info_def)
  have d: "downloadCompiler ?E ?s ?w =
      (Inl (ZkSyncSolcPluginError COMPILER_BINARY_CORRUPTION_ERROR), ?w')"
    using r by (simp add: download_defs manifest_defs io_defs example_defs Let_def)
  from corrupt_binary_stays_on_disk [OF d] have "\<exists>body. files ?w' ''/c/zksolc/zksolc-v1.3.5'' =
       Some \<lparr>data = body, ctimeMs = 1000, mode = 493\<rparr>"
    by (auto simp: example_defs)
  with d show ?thesis by blast
qed

subsection \<open>The version check before a download\<close>

lemma downloadCompiler_no_range_error:
  assumes "versionInfoAtDownload E this w = (Inr info, w1)"
    and "isVersionInRange (version this) info = Some True"
  shows "fst (downloadCompiler E this w) \<noteq>
           Inl (ZkSyncSolcPluginError (COMPILER_VERSION_RANGE_ERROR a b c))"
proof (cases "remote E (compilerUrl E this)")
  case (Inl msg)
  from private_downloadCompiler_fails [OF Inl, of w1] assms
    first_line_message_cases [of "DownloadError msg"]
  show ?thesis
    by (auto simp: downloadCompiler_def bindE_def catchE_def throwE_def)
next
  case (Inr body)
  have "fst (downloadCompiler E this w) = Inr () \<or>
        fst (downloadCompiler E this w) =
          Inl (ZkSyncSolcPluginError COMPILER_BINARY_CORRUPTION_ERROR)"
    using verifyCompiler_world by (simp add: downloadCompiler_in_range [OF assms Inr])
  then show ?thesis by auto
qed

text \<open>
  Claim C3, as stated, fails: the test for "equals latest" stands only in the session
  construction. \<open>downloadCompiler\<close> has the range check alone, so a session whose version
  equals the manifest's \<open>latest\<close> is refused when the manifest's \<open>minVersion\<close> is above its
  \<open>latest\<close>. Here the session is the one that the construction with the alias \<open>latest\<close>
  returns from the manifest \<open>{latest: 1.3.13, minVersion: 1.4.0}\<close>; the download that
  follows raises the version-range error.
\<close>

theorem download_rejects_latest_in_inconsistent_window:
  "getDownloaderWithVersionValidated (example_env (example_remote inconsistent_info) example_exec)
     ''latest'' [] ''/c''
     (example_world [''/c/zksolc/compilerVersionInfo.json'' \<mapsto> manifest_file inconsistent_info 500] 1000) =
   (Inr (example_session ''1.3.13''),
    \<lparr>files = [''/c/zksolc/compilerVersionInfo.json'' \<mapsto> manifest_file inconsistent_info 500],
     clock = 1000,
     trace = [PathExists ''/c/zksolc/compilerVersionInfo.json'',
              ReadJSON ''/c/zksolc/compilerVersionInfo.json'',
              PathExists ''/c/zksolc/compilerVersionInfo.json'',
              Stat ''/c/zksolc/compilerVersionInfo.json''],
     static_instance = Some (example_session ''1.3.13'')\<rparr>) \<and>
   version (example_session ''1.3.13'') = latest inconsistent_info \<and>
   fst (downloadCompiler (example_env (example_remote inconsistent_info) example_exec)
     (example_session ''1.3.13'')
     \<lparr>files = [''/c/zksolc/compilerVersionInfo.json'' \<mapsto> manifest_file inconsistent_info 500],
     clock = 1000,
     trace = [PathExists ''/c/zksolc/compilerVersionInfo.json'',
              ReadJSON ''/c/zksolc/compilerVersionInfo.json'',
              PathExists ''/c/zksolc/compilerVersionInfo.json'',
              Stat ''/c/zksolc/compilerVersionInfo.json''],
     static_instance = Some (example_session ''1.3.13'')\<rparr>) =
   Inl (ZkSyncSolcPluginError (COMPILER_VERSION_RANGE_ERROR ''1.3.13'' ''1.4.0'' ''1.3.13''))"
proof -
  have r: "isVersionInRange ''1.3.13'' inconsistent_info = Some False"
    by (simp add: semver_eval inconsistent_info_def)
  show ?thesis
    using r
    by (simp add: getDownloaderWithVersionValidated_def download_defs manifest_defs io_defs
          example_defs Let_def)
qed

text \<open>
  Claim C3, amended. \<open>downloadCompiler\<close> validates the session's version by the range
  check only. For a session whose version equals the manifest's \<open>latest\<close>, the check
  passes and no version-range error is raised, provided \<open>minVersion\<close> and \<open>latest\<close> are
  semantic versions with \<open>minVersion\<close> not above \<open>latest\<close>.
\<close>

theorem download_accepts_latest_in_consistent_window:
  assumes "versionInfoAtDownload E this w = (Inr info, w1)"
    and "version this = latest info"
    and "parse_semver (latest info) = Some hi"
    and "parse_semver (minVersion info) = Some lo"
    and "compare_semver lo hi \<le> 0"
  shows "isVersionInRange (version this) info = Some True \<and>
         (\<forall>a b c. fst (downloadCompiler E this w) \<noteq>
            Inl (ZkSyncSolcPluginError (COMPILER_VERSION_RANGE_ERROR a b c)))"
proof -
  have "0 \<le> compare_semver hi lo"
    using assms(5) compare_semver_flip [of hi lo] by simp
  then have r: "isVersionInRange (version this) info = Some True"
    using assms(2-4) compare_semver_refl [of hi] by (simp add: isVersionInRange_def)
  with downloadCompiler_no_range_error [OF assms(1) r] show ?thesis by simp
qed

text \<open>The session of version \<open>1.3.13\<close> against the window from \<open>1.3.0\<close> to \<open>1.3.13\<close>.\<close>

theorem download_accepts_latest_in_consistent_window_witness:
  "isVersionInRange (version (example_session ''1.3.13'')) example_info = Some True \<and>
   downloadCompiler (example_env (example_remote example_info) example_exec)
     (example_session ''1.3.13'')
     (example_world [''/c/zksolc/compilerVersionInfo.json'' \<mapsto> manifest_file example_info 500] 1000) =
   (Inr (),
    \<lparr>files = [''/c/zksolc/compilerVersionInfo.json'' \<mapsto> manifest_file example_info 500,
              ''/c/zksolc/zksolc-v1.3.13'' \<mapsto>
                \<lparr>data = Bytes ''zksolc 1.3.13'', ctimeMs = 1000, mode = 493\<rparr>],
     clock = 1000,
     trace = [PathExists ''/c/zksolc/compilerVersionInfo.json'',
              ReadJSON ''/c/zksolc/compilerVersionInfo.json'',
              Download ''https://bin/zksolc-v1.3.13'' ''/c/zksolc/zksolc-v1.3.13'',
              ChmodSync ''/c/zksolc/zksolc-v1.3.13'' 493,
              SpawnSync ''/c/zksolc/zksolc-v1.3.13'' [''--version'']],
     static_instance = None\<rparr>)"
proof -
  let ?E = "example_env (example_remote example_info) example_exec"
  let ?s = "example_session ''1.3.13''"
  let ?w = "example_world [''/c/zksolc/compilerVersionInfo.json'' \<mapsto> manifest_file example_info 500] 1000"
  have h: "versionInfoAtDownload ?E ?s ?w = (Inr example_info, snd (versionInfoAtDownload ?E ?s ?w))"
    by (simp add: manifest_defs io_defs example_defs)
  have v: "version ?s = latest example_info"
    by (simp add: example_defs)
  have p1: "parse_semver (latest example_info) =
      Some \<lparr>major = 1, minor = 3, patch = 13, prerelease = []\<rparr>"
    by (simp add: semver_eval example_info_def)
  have p2: "parse_semver (minVersion example_info) =
      Some \<lparr>major = 1, minor = 3, patch = 0, prerelease = []\<rparr>"
    by (simp add: semver_eval example_info_def)
  have c: "compare_semver \<lparr>major = 1, minor = 3, patch = 0, prerelease = []\<rparr>
      \<lparr>major = 1, minor = 3, patch = 13, prerelease = []\<rparr> \<le> 0"
    by (simp add: semver_eval)
  from download_accepts_latest_in_consistent_window [OF h v p1 p2 c] have r: "isVersionInRange (version ?s) example_info = Some True"
    by simp
  then have "isVersionInRange ''1.3.13'' example_info = Some True"
    by (simp add: example_session_def)
  then have "downloadCompiler ?E ?s ?w = (Inr (),
    \<lparr>files = [''/c/zksolc/compilerVersionInfo.json'' \<mapsto> manifest_file example_info 500,
              ''/c/zksolc/zksolc-v1.3.13'' \<mapsto>
                \<lparr>data = Bytes ''zksolc 1.3.13'', ctimeMs = 1000, mode = 493\<rparr>],
     clock = 1000,
     trace = [PathExists ''/c/zksolc/compilerVersionInfo.json'',
              ReadJSON ''/c/zksolc/compilerVersionInfo.json'',
              Download ''https://bin/zksolc-v1.3.13'' ''/c/zksolc/zksolc-v1.3.13'',
              ChmodSync ''/c/zksolc/zksolc-v1.3.13'' 493,
              SpawnSync ''/c/zksolc/zksolc-v1.3.13'' [''--version'']],
     static_instance = None\<rparr>)"
    by (simp add: download_defs manifest_defs io_defs example_defs Let_def is_digit_def)
  with r show ?thesis by simp
qed

subsection \<open>Fetches of the manifest\<close>

lemma verifyCompiler_fetches:
  "fetches_to p (trace (snd (verifyCompiler E this w))) = fetches_to p (trace w)"
  by (auto simp: verifyCompiler_def io_defs Let_def fetches_to_append split: option.splits)

lemma construction_fetches_absent:
  assumes "static_instance w = None"
    and "files w (getCompilerVersionInfoPath E (new_ZksolcCompilerDownloader E v cp d)) = None"
  shows "manifest_fetches E (new_ZksolcCompilerDownloader E v cp d)
           (snd (getDownloaderWithVersionValidated E v cp d w)) =
         manifest_fetches E (new_ZksolcCompilerDownloader E v cp d) w + 1"
  using assms
  by (auto simp: getDownloaderWithVersionValidated_def manifest_fetches_def manifest_defs io_defs
        Let_def fetches_to_append
        split: sum.splits file_data.splits option.splits)

lemma construction_fetches_stale:
  assumes "static_instance w = None"
    and "files w (getCompilerVersionInfoPath E (new_ZksolcCompilerDownloader E v cp d)) = Some f"
    and "data f = Manifest i"
    and "clock w - ctimeMs f > DEFAULT_COMPILER_VERSION_INFO_CACHE_PERIOD E"
  shows "manifest_fetches E (new_ZksolcCompilerDownloader E v cp d)
           (snd (getDownloaderWithVersionValidated E v cp d w)) =
         manifest_fetches E (new_ZksolcCompilerDownloader E v cp d) w + 1"
  using assms
  by (auto simp: getDownloaderWithVersionValidated_def manifest_fetches_def manifest_defs io_defs
        Let_def fetches_to_append new_ZksolcCompilerDownloader_def getCompilerVersionInfoPath_def
        split: sum.splits file_data.splits option.splits)

lemma construction_fetches_fresh:
  assumes "static_instance w = None"
    and "files w (getCompilerVersionInfoPath E (new_ZksolcCompilerDownloader E v cp d)) = Some f"
    and "\<not> clock w - ctimeMs f > DEFAULT_COMPILER_VERSION_INFO_CACHE_PERIOD E"
  shows "manifest_fetches E (new_ZksolcCompilerDownloader E v cp d)
           (snd (getDownloaderWithVersionValidated E v cp d w)) =
         manifest_fetches E (new_ZksolcCompilerDownloader E v cp d) w"
  using assms
  by (auto simp: getDownloaderWithVersionValidated_def manifest_fetches_def manifest_defs io_defs
        Let_def fetches_to_append new_ZksolcCompilerDownloader_def getCompilerVersionInfoPath_def
        split: sum.splits file_data.splits option.splits)

lemma downloadCompiler_tail_fetches:
  assumes "getCompilerPath E this \<noteq> getCompilerVersionInfoPath E this"
  shows "manifest_fetches E this (snd (downloadCompiler E this w)) =
         manifest_fetches E this (snd (versionInfoAtDownload E this w))"
proof -
  obtain r w1 where v: "versionInfoAtDownload E this w = (r, w1)"
    by (cases "versionInfoAtDownload E this w")
  show ?thesis
  proof (cases r)
    case (Inl e)
    with v show ?thesis by (simp add: downloadCompiler_def bindE_def)
  next
    case (Inr info)
    show ?thesis
    proof (cases "isVersionInRange (version this) info")
      case None
      with v Inr show ?thesis by (simp add: downloadCompiler_def bindE_def throwE_def)
    next
      case (Some inRange)
      show ?thesis
      proof (cases inRange)
        case False
        with Some v Inr show ?thesis by (simp add: downloadCompiler_def bindE_def throwE_def)
      next
        case True
        have v': "versionInfoAtDownload E this w = (Inr info, w1)"
          using v Inr by simp
        have r': "isVersionInRange (version this) info = Some True"
          using Some True by simp
        show ?thesis
        proof (cases "remote E (compilerUrl E this)")
          case (Inl msg)
          from private_downloadCompiler_fails [OF Inl, of w1] v' r' assms
          show ?thesis
            by (simp add: downloadCompiler_def bindE_def catchE_def throwE_def
                  manifest_fetches_def record_event_def fetches_to_append)
        next
          case (Inr body)
          show ?thesis
            using assms v'
            by (simp add: downloadCompiler_in_range [OF v' r' Inr] manifest_fetches_def
                  verifyCompiler_fetches fetches_to_append)
        qed
      qed
    qed
  qed
qed

lemma download_fetches_absent:
  assumes "getCompilerPath E this \<noteq> getCompilerVersionInfoPath E this"
    and "files w (getCompilerVersionInfoPath E this) = None"
  shows "manifest_fetches E this (snd (downloadCompiler E this w)) =
         manifest_fetches E this w + 1"
  using assms(2)
  unfolding downloadCompiler_tail_fetches [OF assms(1)]
  by (auto simp: manifest_fetches_def manifest_defs io_defs fetches_to_append
        split: sum.splits file_data.splits option.splits)

lemma download_fetches_present:
  assumes "getCompilerPath E this \<noteq> getCompilerVersionInfoPath E this"
    and "files w (getCompilerVersionInfoPath E this) = Some f"
  shows "manifest_fetches E this (snd (downloadCompiler E this w)) =
         manifest_fetches E this w"
  using assms(2)
  unfolding downloadCompiler_tail_fetches [OF assms(1)]
  by (auto simp: manifest_fetches_def manifest_defs io_defs fetches_to_append
        split: sum.splits file_data.splits option.splits)

text \<open>
  Claim C2, as stated, fails in two places. In \<open>downloadCompiler\<close> the staleness check is
  the second operand of \<open>&&\<close>, behind "the manifest was not found": a manifest file that
  is present is not fetched again, however old it is. And at session construction the
  manifest file is read before its age is looked at, so a stale file that is not JSON
  ends the call with the parse error and no fetch. Both with a file 10000000 ms old and a
  period of 3600000 ms.
\<close>

theorem stale_manifest_not_refetched:
  "files (example_world [''/c/zksolc/compilerVersionInfo.json'' \<mapsto> manifest_file example_info 0] 10000000)
     (getCompilerVersionInfoPath (example_env (example_remote example_info) example_exec)
        (example_session ''1.3.5'')) = Some (manifest_file example_info 0) \<and>
   clock (example_world [''/c/zksolc/compilerVersionInfo.json'' \<mapsto> manifest_file example_info 0] 10000000)
     - ctimeMs (manifest_file example_info 0)
     > compilerVersionInfoCachePeriodMs (example_session ''1.3.5'') \<and>
   manifest_fetches (example_env (example_remote example_info) example_exec) (example_session ''1.3.5'')
     (snd (downloadCompiler (example_env (example_remote example_info) example_exec)
             (example_session ''1.3.5'')
             (example_world [''/c/zksolc/compilerVersionInfo.json'' \<mapsto> manifest_file example_info 0]
                10000000))) = 0 \<and>
   clock (example_world [''/c/zksolc/compilerVersionInfo.json'' \<mapsto>
            \<lparr>data = Bytes ''{'', ctimeMs = 0, mode = 420\<rparr>] 10000000) - 0
     > DEFAULT_COMPILER_VERSION_INFO_CACHE_PERIOD (example_env (example_remote example_info) example_exec) \<and>
   fst (getDownloaderWithVersionValidated (example_env (example_remote example_info) example_exec)
          ''latest'' [] ''/c''
          (example_world [''/c/zksolc/compilerVersionInfo.json'' \<mapsto>
             \<lparr>data = Bytes ''{'', ctimeMs = 0, mode = 420\<rparr>] 10000000)) = Inl SyntaxError \<and>
   manifest_fetches (example_env (example_remote example_info) example_exec) (example_session ''latest'')
     (snd (getDownloaderWithVersionValidated (example_env (example_remote example_info) example_exec)
             ''latest'' [] ''/c''
             (example_world [''/c/zksolc/compilerVersionInfo.json'' \<mapsto>
                \<lparr>data = Bytes ''{'', ctimeMs = 0, mode = 420\<rparr>] 10000000))) = 0"
proof -
  have r: "isVersionInRange ''1.3.5'' example_info = Some True"
    by (simp add: semver_eval example_info_def)
  show ?thesis
    using r
    by (simp add: getDownloaderWithVersionValidated_def manifest_fetches_def download_defs
          manifest_defs io_defs example_defs Let_def is_digit_def)
qed

text \<open>
  Claim C2, amended. Session construction fetches the manifest exactly once when the file
  is absent, and exactly once when the file is present, holds a manifest and is older
  than the period; it does not fetch when the file is present and not older than the
  period. \<open>downloadCompiler\<close> fetches the manifest exactly once when the file is
  absent, and does not fetch when the file is present and not older than the period.
  (The paths of the binary and of the manifest differ, so that a download of the binary
  is not taken for a fetch of the manifest.)
\<close>

theorem manifest_refetch_counts:
  "(static_instance w = None \<and>
    files w (getCompilerVersionInfoPath E (new_ZksolcCompilerDownloader E v cp d)) = None
    \<longrightarrow> manifest_fetches E (new_ZksolcCompilerDownloader E v cp d)
            (snd (getDownloaderWithVersionValidated E v cp d w)) =
          manifest_fetches E (new_ZksolcCompilerDownloader E v cp d) w + 1) \<and>
   (static_instance w = None \<and>
    files w (getCompilerVersionInfoPath E (new_ZksolcCompilerDownloader E v cp d)) = Some f \<and>
    data f = Manifest i \<and>
    clock w - ctimeMs f > DEFAULT_COMPILER_VERSION_INFO_CACHE_PERIOD E
    \<longrightarrow> manifest_fetches E (new_ZksolcCompilerDownloader E v cp d)
            (snd (getDownloaderWithVersionValidated E v cp d w)) =
          manifest_fetches E (new_ZksolcCompilerDownloader E v cp d) w + 1) \<and>
   (static_instance w = None \<and>
    files w (getCompilerVersionInfoPath E (new_ZksolcCompilerDownloader E v cp d)) = Some f \<and>
    \<not> clock w - ctimeMs f > DEFAULT_COMPILER_VERSION_INFO_CACHE_PERIOD E
    \<longrightarrow> manifest_fetches E (new_ZksolcCompilerDownloader E v cp d)
            (snd (getDownloaderWithVersionValidated E v cp d w)) =
          manifest_fetches E (new_ZksolcCompilerDownloader E v cp d) w) \<and>
   (getCompilerPath E s \<noteq> getCompilerVersionInfoPath E s \<and>
    files w (getCompilerVersionInfoPath E s) = None
    \<longrightarrow> manifest_fetches E s (snd (downloadCompiler E s w)) = manifest_fetches E s w + 1) \<and>
   (getCompilerPath E s \<noteq> getCompilerVersionInfoPath E s \<and>
    files w (getCompilerVersionInfoPath E s) = Some f \<and>
    \<not> clock w - ctimeMs f > compilerVersionInfoCachePeriodMs s
    \<longrightarrow> manifest_fetches E s (snd (downloadCompiler E s w)) = manifest_fetches E s w)"
  using construction_fetches_absent [of w E v cp d]
    construction_fetches_stale [of w E v cp d f i]
    construction_fetches_fresh [of w E v cp d f]
    download_fetches_absent [of E s w]
    download_fetches_present [of E s w f]
  by blast

text \<open>
  The five cases: construction with no file, with a stale manifest and with a fresh one;
  \<open>downloadCompiler\<close> with no file and with a fresh manifest.
\<close>

theorem manifest_refetch_counts_witness:
  "manifest_fetches (example_env (example_remote example_info) example_exec)
     (new_ZksolcCompilerDownloader (example_env (example_remote example_info) example_exec) ''1.3.5'' [] ''/c'')
     (snd (getDownloaderWithVersionValidated (example_env (example_remote example_info) example_exec)
             ''1.3.5'' [] ''/c'' (example_world Map.empty 10000000))) = 1 \<and>
   manifest_fetches (example_env (example_remote example_info) example_exec)
     (new_ZksolcCompilerDownloader (example_env (example_remote example_info) example_exec) ''1.3.5'' [] ''/c'')
     (snd (getDownloaderWithVersionValidated (example_env (example_remote example_info) example_exec)
             ''1.3.5'' [] ''/c''
             (example_world [''/c/zksolc/compilerVersionInfo.json'' \<mapsto> manifest_file example_info 0]
                10000000))) = 1 \<and>
   manifest_fetches (example_env (example_remote example_info) example_exec)
     (new_ZksolcCompilerDownloader (example_env (example_remote example_info) example_exec) ''1.3.5'' [] ''/c'')
     (snd (getDownloaderWithVersionValidated (example_env (example_remote example_info) example_exec)
             ''1.3.5'' [] ''/c''
             (example_world [''/c/zksolc/compilerVersionInfo.json'' \<mapsto> manifest_file example_info 9999000]
                10000000))) = 0 \<and>
   manifest_fetches (example_env (example_remote example_info) example_exec) (example_session ''1.3.5'')
     (snd (downloadCompiler (example_env (example_remote example_info) example_exec)
             (example_session ''1.3.5'') (example_world Map.empty 10000000))) = 1 \<and>
   manifest_fetches (example_env (example_remote example_info) example_exec) (example_session ''1.3.5'')
     (snd (downloadCompiler (example_env (example_remote example_info) example_exec)
             (example_session ''1.3.5'')
             (example_world [''/c/zksolc/compilerVersionInfo.json'' \<mapsto> manifest_file example_info 9999000]
                10000000))) = 0"
proof -
  let ?E = "example_env (example_remote example_info) example_exec"
  let ?new = "new_ZksolcCompilerDownloader ?E ''1.3.5'' [] ''/c''"
  let ?s = "example_session ''1.3.5''"
  let ?absent = "example_world Map.empty 10000000"
  let ?stale = "example_world [''/c/zksolc/compilerVersionInfo.json'' \<mapsto> manifest_file example_info 0] 10000000"
  let ?fresh = "example_world [''/c/zksolc/compilerVersionInfo.json'' \<mapsto> manifest_file example_info 9999000] 10000000"
  have h1: "static_instance ?absent = None \<and> files ?absent (getCompilerVersionInfoPath ?E ?new) = None"
    by (simp add: example_defs)
  have h2: "static_instance ?stale = None \<and>
      files ?stale (getCompilerVersionInfoPath ?E ?new) = Some (manifest_file example_info 0) \<and>
      data (manifest_file example_info 0) = Manifest example_info \<and>
      clock ?stale - ctimeMs (manifest_file example_info 0)
        > DEFAULT_COMPILER_VERSION_INFO_CACHE_PERIOD ?E"
    by (simp add: example_defs)
  have h3: "static_instance ?fresh = None \<and>
      files ?fresh (getCompilerVersionInfoPath ?E ?new) = Some (manifest_file example_info 9999000) \<and>
      \<not> clock ?fresh - ctimeMs (manifest_file example_info 9999000)
        > DEFAULT_COMPILER_VERSION_INFO_CACHE_PERIOD ?E"
    by (simp add: example_defs)
  have h4: "getCompilerPath ?E ?s \<noteq> getCompilerVersionInfoPath ?E ?s \<and>
      files ?absent (getCompilerVersionInfoPath ?E ?s) = None"
    by (simp add: example_defs)
  have h5: "getCompilerPath ?E ?s \<noteq> getCompilerVersionInfoPath ?E ?s \<and>
      files ?fresh (getCompilerVersionInfoPath ?E ?s) = Some (manifest_file example_info 9999000) \<and>
      \<not> clock ?fresh - ctimeMs (manifest_file example_info 9999000)
        > compilerVersionInfoCachePeriodMs ?s"
    by (simp add: example_defs)
  have z: "manifest_fetches ?E ?new ?absent = 0" "manifest_fetches ?E ?new ?stale = 0"
    "manifest_fetches ?E ?new ?fresh = 0" "manifest_fetches ?E ?s ?absent = 0"
    "manifest_fetches ?E ?s ?fresh = 0"
    by (simp_all add: manifest_fetches_def example_world_def)
  from manifest_refetch_counts [THEN conjunct1, THEN mp, OF h1]
    manifest_refetch_counts [THEN conjunct2, THEN conjunct1, THEN mp, OF h2]
    manifest_refetch_counts [THEN conjunct2, THEN conjunct2, THEN conjunct1, THEN mp, OF h3]
    manifest_refetch_counts [THEN conjunct2, THEN conjunct2, THEN conjunct2, THEN conjunct1, THEN mp, OF h4]
    manifest_refetch_counts [THEN conjunct2, THEN conjunct2, THEN conjunct2, THEN conjunct2, THEN mp, OF h5]
  show ?thesis
    unfolding z by simp
qed

end
